theory Spec2Isabelle
  imports Main "HOL-Library.Word" "HOL-Library.Sublist" "HOL-Library.List_Lexorder" "HOL-Library.Char_ord"
begin

unbundle bit_operations_syntax

section \<open>Shared data model\<close>

text \<open>
  A \<^verbatim>\<open>Uint8Array\<close> of frame bytes is a list of 8-bit words. Text and the byte
  buffers of the HTTP codec are \<^typ>\<open>string\<close> (a list of 8-bit characters); the
  \<^verbatim>\<open>TextEncoder\<close>/\<^verbatim>\<open>TextDecoder\<close> pair is the identity on them, which is
  exact on ASCII input. The debug log has no part in the model.
\<close>

type_synonym byte = "8 word"

text \<open>A thrown JavaScript \<^verbatim>\<open>Error\<close>, with its \<^verbatim>\<open>message\<close>.\<close>

datatype js_error = Error (message: string)

section \<open>WebSocket frame packing (\<^verbatim>\<open>BaseProxy.packTextFrame\<close>)\<close>

text \<open>
  The masking loop \<^verbatim>\<open>maskedPayload[i] = payload[i] ^ mask[i % 4]\<close>, with the loop
  index \<open>i\<close> carried along.
\<close>

fun mask_loop :: "byte list \<Rightarrow> byte list \<Rightarrow> nat \<Rightarrow> byte list" where
  "mask_loop msk [] i = []"
| "mask_loop msk (b # bs) i = (b XOR (msk ! (i mod 4))) # mask_loop msk bs (Suc i)"

text \<open>
  \<open>msk\<close> stands for the four bytes that \<^verbatim>\<open>crypto.getRandomValues\<close> writes. The
  result is the thrown error or \<^verbatim>\<open>concatUint8Arrays(header, mask, maskedPayload)\<close>.
\<close>

definition packTextFrame :: "byte list \<Rightarrow> byte list \<Rightarrow> js_error + byte list" where
  "packTextFrame msk payload =
     (let FIN_AND_OP = (0x81 :: byte);
          maskBit = (0x80 :: byte);
          len = length payload
      in if len < 126 then
           Inr ([FIN_AND_OP, maskBit OR of_nat len] @ msk @ mask_loop msk payload 0)
         else if len < 65536 then
           Inr ([FIN_AND_OP, maskBit OR 126, of_nat (drop_bit 8 len) AND 0xff, of_nat len AND 0xff]
                @ msk @ mask_loop msk payload 0)
         else Inl (Error ''Payload too large''))"

section \<open>JavaScript string operations\<close>

text \<open>
  \<^verbatim>\<open>String.prototype.toLowerCase\<close> on the ASCII range. \<^verbatim>\<open>s.startsWith(p)\<close> is
  \<^term>\<open>prefix p s\<close>, \<^verbatim>\<open>s.endsWith(p)\<close> is \<^term>\<open>suffix p s\<close> and \<^verbatim>\<open>s.includes(p)\<close> is
  \<^term>\<open>sublist p s\<close> (contiguous, case-sensitive).
\<close>

definition to_lower_char :: "char \<Rightarrow> char" where
  "to_lower_char c =
     (let n = (of_char c :: nat) in if 65 \<le> n \<and> n \<le> 90 then char_of (n + 32) else c)"

definition toLowerCase :: "string \<Rightarrow> string" where
  "toLowerCase s = map to_lower_char s"

text \<open>\<^verbatim>\<open>s.indexOf(p)\<close>; \<open>None\<close> is the result \<open>-1\<close>.\<close>

fun indexOf :: "string \<Rightarrow> string \<Rightarrow> nat option" where
  "indexOf [] p = (if p = [] then Some 0 else None)"
| "indexOf (c # cs) p =
     (if prefix p (c # cs) then Some 0 else map_option Suc (indexOf cs p))"

text \<open>\<^verbatim>\<open>s.split(d)\<close> for a one-character separator \<open>d\<close>.\<close>

fun split_on :: "char \<Rightarrow> string \<Rightarrow> string list" where
  "split_on d [] = [[]]"
| "split_on d (c # cs) =
     (if c = d then [] # split_on d cs
      else (case split_on d cs of
              w # ws \<Rightarrow> (c # w) # ws
            | [] \<Rightarrow> [[c]]))"

text \<open>\<^verbatim>\<open>parts.join(sep)\<close>.\<close>

fun join :: "string \<Rightarrow> string list \<Rightarrow> string" where
  "join sep [] = []"
| "join sep [w] = w"
| "join sep (w # v # ws) = w @ sep @ join sep (v # ws)"

section \<open>The \<^verbatim>\<open>Headers\<close> collection\<close>

text \<open>
  A \<^verbatim>\<open>Headers\<close> object is its header list, in insertion order. Names are compared
  case-insensitively and come out lower-cased.
\<close>

type_synonym headers = "(string \<times> string) list"

definition header_values :: "headers \<Rightarrow> string \<Rightarrow> string list" where
  "header_values hs name =
     map snd (filter (\<lambda>(k, v). toLowerCase k = toLowerCase name) hs)"

text \<open>\<^verbatim>\<open>headers.has(name)\<close> and \<^verbatim>\<open>headers.get(name)\<close> (\<open>None\<close> is \<^verbatim>\<open>null\<close>).\<close>

definition headers_has :: "headers \<Rightarrow> string \<Rightarrow> bool" where
  "headers_has hs name = (header_values hs name \<noteq> [])"

definition headers_get :: "headers \<Rightarrow> string \<Rightarrow> string option" where
  "headers_get hs name =
     (if header_values hs name = [] then None
      else Some (join '', '' (header_values hs name)))"

text \<open>
  \<^verbatim>\<open>headers.set(name, value)\<close>: the first header of that name takes the value and the
  others of that name go; a new name is appended.
\<close>

fun replace_first :: "string \<Rightarrow> string \<Rightarrow> headers \<Rightarrow> headers" where
  "replace_first n v [] = []"
| "replace_first n v ((k, w) # hs) =
     (if toLowerCase k = n then (n, v) # filter (\<lambda>(k', w'). toLowerCase k' \<noteq> n) hs
      else (k, w) # replace_first n v hs)"

definition headers_set :: "headers \<Rightarrow> string \<Rightarrow> string \<Rightarrow> headers" where
  "headers_set hs name v =
     (let n = toLowerCase name
      in if headers_has hs n then replace_first n v hs else hs @ [(n, v)])"

text \<open>\<^verbatim>\<open>headers.append(name, value)\<close>.\<close>

definition headers_append :: "headers \<Rightarrow> string \<Rightarrow> string \<Rightarrow> headers" where
  "headers_append hs name v = hs @ [(toLowerCase name, v)]"

text \<open>
  Iteration (\<^verbatim>\<open>for (const [k, v] of headers)\<close>, \<^verbatim>\<open>headers.entries()\<close>): the names
  lower-cased, sorted and without duplicates. Each name comes with its combined value,
  but for \<open>set-cookie\<close>, which gives one entry for each of its values, in their order.
\<close>

definition headers_entries :: "headers \<Rightarrow> headers" where
  "headers_entries hs =
     concat (map (\<lambda>n. if n = ''set-cookie'' then map (\<lambda>v. (n, v)) (header_values hs n)
                       else [(n, join '', '' (header_values hs n))])
                 (sort (remdups (map (\<lambda>(k, v). toLowerCase k) hs))))"

section \<open>Header sanitizer (\<^verbatim>\<open>BaseProxy.filterHeaders\<close>)\<close>

text \<open>
  \<^verbatim>\<open>/^(host|accept-encoding|cf-|cdn-|referer|referrer)/i.test(k)\<close>: the name,
  case folded, starts with one of the six alternatives.
\<close>

definition HEADER_FILTER_RE :: "string \<Rightarrow> bool" where
  "HEADER_FILTER_RE k =
     (let l = toLowerCase k
      in prefix ''host'' l \<or> prefix ''accept-encoding'' l \<or> prefix ''cf-'' l
         \<or> prefix ''cdn-'' l \<or> prefix ''referer'' l \<or> prefix ''referrer'' l)"

definition filterHeaders :: "headers \<Rightarrow> headers" where
  "filterHeaders hdrs =
     fold (\<lambda>(k, v) cleanedHeaders.
             if \<not> HEADER_FILTER_RE k then headers_set cleanedHeaders k v else cleanedHeaders)
          (headers_entries hdrs) []"

section \<open>URLs, configuration and requests\<close>

text \<open>
  A parsed \<^verbatim>\<open>URL\<close> object, with the fields the code reads. \<open>protocol\<close> ends with
  the colon, \<open>port\<close> is the empty string when the URL has none (or the scheme's
  default), \<open>search\<close> is empty or starts with \<open>?\<close>. The \<^verbatim>\<open>URL\<close> parser is the
  runtime's.
\<close>

record url =
  protocol :: string
  hostname :: string
  port :: string
  pathname :: string
  search :: string

text \<open>The configuration bag of \<^verbatim>\<open>ConfigManager.DEFAULT_CONFIG\<close>.\<close>

record config =
  AUTH_TOKEN :: string
  DEFAULT_DST_URL :: string
  DEBUG_MODE :: bool
  PROXY_STRATEGY :: string
  FALLBACK_PROXY_STRATEGY :: string
  SOCKS5_ADDRESS :: string
  THIRD_PARTY_PROXY_URL :: string
  CLOUD_PROVIDER_URL :: string
  DOH_SERVER_HOSTNAME :: string
  DOH_SERVER_PORT :: nat
  DOH_SERVER_PATH :: string
  DOT_SERVER_HOSTNAME :: string
  DOT_SERVER_PORT :: nat

text \<open>
  A \<^verbatim>\<open>Request\<close>. Its body is \<^verbatim>\<open>null\<close> (\<open>None\<close>) or a handle to a single-pass
  byte stream that lives in a store.
\<close>

record request =
  req_method :: string
  req_url :: url
  req_headers :: headers
  req_body :: "nat option"

section \<open>Destination URL (\<^verbatim>\<open>ShadowProxy.parseDestinationUrl\<close>)\<close>

text \<open>\<^verbatim>\<open>url.pathname.split("/").filter(Boolean)\<close>.\<close>

definition path_parts :: "string \<Rightarrow> string list" where
  "path_parts p = filter (\<lambda>s. s \<noteq> []) (split_on CHR ''/'' p)"

text \<open>
  The destructuring \<^verbatim>\<open>[auth, protocol, ...path] = parts\<close> leaves \<open>auth\<close> and
  \<open>protocol\<close> undefined (\<open>None\<close>) on a short list.
\<close>

definition parseDestinationUrl :: "request \<Rightarrow> config \<Rightarrow> string" where
  "parseDestinationUrl req cfg =
     (let u = req_url req;
          parts = path_parts (pathname u);
          auth = (case parts of [] \<Rightarrow> None | a # _ \<Rightarrow> Some a);
          proto = (case parts of _ # p # _ \<Rightarrow> Some p | _ \<Rightarrow> None);
          path = drop 2 parts;
          isValid = (auth = Some (AUTH_TOKEN cfg))
      in case proto of
           None \<Rightarrow> DEFAULT_DST_URL cfg
         | Some p \<Rightarrow>
             if isValid \<and> p \<noteq> [] then
               (if suffix '':'' p then p @ ''//'' @ join ''/'' path @ search u
                else p @ ''://'' @ join ''/'' path @ search u)
             else DEFAULT_DST_URL cfg)"

section \<open>Sample configuration and requests\<close>

text \<open>The default configuration of \<^verbatim>\<open>ConfigManager\<close>, with the token \<open>TOK\<close>.\<close>

definition sample_config :: config where
  "sample_config =
     \<lparr>AUTH_TOKEN = ''TOK'', DEFAULT_DST_URL = ''https://httpbin.org/get'',
      DEBUG_MODE = False, PROXY_STRATEGY = ''socket'', FALLBACK_PROXY_STRATEGY = ''fetch'',
      SOCKS5_ADDRESS = [], THIRD_PARTY_PROXY_URL = [], CLOUD_PROVIDER_URL = [],
      DOH_SERVER_HOSTNAME = ''dns.google'', DOH_SERVER_PORT = 443,
      DOH_SERVER_PATH = ''/dns-query'', DOT_SERVER_HOSTNAME = ''dns.google'',
      DOT_SERVER_PORT = 853\<rparr>"

definition sample_get :: "string \<Rightarrow> string \<Rightarrow> request" where
  "sample_get path query =
     \<lparr>req_method = ''GET'',
      req_url = \<lparr>protocol = ''https:'', hostname = ''gw.example'', port = [],
                 pathname = path, search = query\<rparr>,
      req_headers = [], req_body = None\<rparr>"

section \<open>Numbers and slices\<close>

definition CR :: char where "CR = CHR 0x0D"
definition LF :: char where "LF = CHR 0x0A"
definition CRLF :: string where "CRLF = [CR, LF]"

text \<open>White space that \<^verbatim>\<open>parseInt\<close> skips, on the byte range.\<close>

definition is_space :: "char \<Rightarrow> bool" where
  "is_space c = (let n = (of_char c :: nat) in (9 \<le> n \<and> n \<le> 13) \<or> n = 32)"

definition is_digit :: "char \<Rightarrow> bool" where
  "is_digit c = (let n = (of_char c :: nat) in 48 \<le> n \<and> n \<le> 57)"

text \<open>The value of a digit in radices up to 36; \<open>None\<close> for any other character.\<close>

definition digit_value :: "char \<Rightarrow> nat option" where
  "digit_value c =
     (let n = (of_char c :: nat)
      in if 48 \<le> n \<and> n \<le> 57 then Some (n - 48)
         else if 97 \<le> n \<and> n \<le> 122 then Some (n - 87)
         else if 65 \<le> n \<and> n \<le> 90 then Some (n - 55)
         else None)"

definition is_radix_digit :: "nat \<Rightarrow> char \<Rightarrow> bool" where
  "is_radix_digit radix c = (case digit_value c of Some d \<Rightarrow> d < radix | None \<Rightarrow> False)"

definition digits_value :: "nat \<Rightarrow> string \<Rightarrow> nat" where
  "digits_value radix ds = foldl (\<lambda>acc c. acc * radix + (case digit_value c of Some d \<Rightarrow> d | None \<Rightarrow> 0)) 0 ds"

text \<open>
  \<^verbatim>\<open>parseInt(s, radix)\<close> for radix 10 or 16; \<open>None\<close> is \<^verbatim>\<open>NaN\<close>. Leading white space
  goes, then one sign, then (radix 16 only) a \<open>0x\<close> or \<open>0X\<close> prefix; the longest run
  of digits is the value. Numbers are exact integers here (a double is exact up
  to \<open>2^53\<close>).
\<close>

definition parseInt :: "string \<Rightarrow> nat \<Rightarrow> int option" where
  "parseInt s radix =
     (let s1 = dropWhile is_space s;
          negative = prefix ''-'' s1;
          s2 = (if prefix ''-'' s1 \<or> prefix ''+'' s1 then drop 1 s1 else s1);
          s3 = (if radix = 16 \<and> (prefix ''0x'' s2 \<or> prefix ''0X'' s2) then drop 2 s2 else s2);
          z = takeWhile (is_radix_digit radix) s3
      in if z = [] then None
         else Some ((if negative then - 1 else 1) * int (digits_value radix z)))"

text \<open>
  \<^verbatim>\<open>arr.slice(begin, end)\<close> and \<^verbatim>\<open>arr.slice(begin)\<close> with integer arguments: a
  negative index counts from the end, and every index is clamped to the array.
\<close>

definition clamp_index :: "int \<Rightarrow> nat \<Rightarrow> nat" where
  "clamp_index i n = (if i < 0 then nat (max 0 (int n + i)) else min (nat i) n)"

definition js_slice :: "int \<Rightarrow> int \<Rightarrow> 'a list \<Rightarrow> 'a list" where
  "js_slice b e xs =
     (let from = clamp_index b (length xs); to = clamp_index e (length xs)
      in take (to - from) (drop from xs))"

definition js_slice_from :: "int \<Rightarrow> 'a list \<Rightarrow> 'a list" where
  "js_slice_from b xs = drop (clamp_index b (length xs)) xs"

section \<open>Chunked decoding (\<^verbatim>\<open>BaseProxy.readChunks\<close>)\<close>

text \<open>
  A stream reader is the list of chunks still to come and how the stream ends after
  them: \<open>None\<close> when \<^verbatim>\<open>read()\<close> then reports \<^verbatim>\<open>done\<close>, \<open>Some e\<close> when it throws
  \<open>e\<close>. The second stays fixed while chunks are consumed.

  The search loop for the first CR LF pair of the buffer.
\<close>

fun find_crlf :: "string \<Rightarrow> nat option" where
  "find_crlf (a # b # cs) =
     (if a = CR \<and> b = LF then Some 0 else map_option Suc (find_crlf (b # cs)))"
| "find_crlf cs = None"

text \<open>
  The inner loop \<^verbatim>\<open>while (buff.length < size + 2)\<close>: it reads until the buffer holds
  the chunk and its trailing CR LF, and throws at the end of the stream.
\<close>

fun fill_chunk :: "js_error option \<Rightarrow> int \<Rightarrow> string \<Rightarrow> string list
                    \<Rightarrow> js_error + (string \<times> string list)" where
  "fill_chunk fin need buff [] =
     (if int (length buff) < need then
        Inl (case fin of None \<Rightarrow> Error ''Unexpected EOF in chunked encoding'' | Some e \<Rightarrow> e)
      else Inr (buff, []))"
| "fill_chunk fin need buff (v # reads) =
     (if int (length buff) < need then fill_chunk fin need (buff @ v) reads
      else Inr (buff, v # reads))"

lemma find_crlf_bound: "find_crlf buff = Some pos \<Longrightarrow> pos + 2 \<le> length buff"
proof (induction buff arbitrary: pos rule: find_crlf.induct)
  case (1 a b cs)
  then show ?case by (auto split: if_splits)
qed simp_all

lemma fill_chunk_size:
  "fill_chunk fin need buff reads = Inr (buff', reads') \<Longrightarrow>
     length buff' + length (concat reads') + length reads'
       \<le> length buff + length (concat reads) + length reads"
proof (induction fin need buff reads rule: fill_chunk.induct)
  case (1 fin need buff)
  then show ?case by (auto split: if_splits)
next
  case (2 fin need buff v reads)
  then show ?case by (cases "int (length buff) < need") auto
qed

text \<open>
  The generator. Its result is the list of chunks it yields and how it ends: \<open>None\<close>
  when it returns, \<open>Some e\<close> when it throws \<open>e\<close> (after the chunks already yielded).
\<close>

function readChunks :: "js_error option \<Rightarrow> string list \<Rightarrow> string
                         \<Rightarrow> string list \<times> js_error option" where
  "readChunks fin reads buff =
     (case find_crlf buff of
        None \<Rightarrow>
          (case reads of
             [] \<Rightarrow> ([], fin)
           | v # reads' \<Rightarrow> readChunks fin reads' (buff @ v))
      | Some pos \<Rightarrow>
          (let sizeStr = take pos buff;
               size = parseInt sizeStr 16
           in case size of
                None \<Rightarrow> ([], None)
              | Some sz \<Rightarrow>
                  if sz = 0 then ([], None)
                  else
                    (case fill_chunk fin (sz + 2) (drop (pos + 2) buff) reads of
                       Inl e \<Rightarrow> ([], Some e)
                     | Inr (buff', reads') \<Rightarrow>
                         (let r = readChunks fin reads' (js_slice_from (sz + 2) buff')
                          in (js_slice 0 sz buff' # fst r, snd r)))))"
  by pat_completeness auto
termination
proof (relation "measure (\<lambda>(fin, reads, buff). length buff + length (concat reads) + length reads)")
  show "wf (measure (\<lambda>(fin, reads, buff). length buff + length (concat reads) + length reads))"
    by simp
next
  fix fin :: "js_error option" and reads :: "string list" and buff v :: string
    and reads' :: "string list"
  assume "reads = v # reads'"
  then show "((fin, reads', buff @ v), (fin, reads, buff))
             \<in> measure (\<lambda>(fin, reads, buff). length buff + length (concat reads) + length reads)"
    by simp
next
  fix fin :: "js_error option" and reads :: "string list" and buff :: string and pos :: nat
    and sz :: int and res :: "string \<times> string list" and buff' :: string
    and reads' :: "string list"
  assume pos: "find_crlf buff = Some pos"
    and fill: "fill_chunk fin (sz + 2) (drop (pos + 2) buff) reads = Inr res"
    and res: "(buff', reads') = res"
  from find_crlf_bound [OF pos] have "length (drop (pos + 2) buff) + 2 \<le> length buff"
    by simp
  moreover from fill res
  have "length buff' + length (concat reads') + length reads'
         \<le> length (drop (pos + 2) buff) + length (concat reads) + length reads"
    using fill_chunk_size by metis
  moreover have "length (js_slice_from (sz + 2) buff') \<le> length buff'"
    by (simp add: js_slice_from_def)
  ultimately show "((fin, reads', js_slice_from (sz + 2) buff'), (fin, reads, buff))
             \<in> measure (\<lambda>(fin, reads, buff). length buff + length (concat reads) + length reads)"
    by simp
qed

declare readChunks.simps [simp del]

section \<open>Well-formed chunked bodies\<close>

text \<open>
  A chunked body as the wire format has it: for each chunk a size line of hexadecimal
  digits, CR LF, as many payload bytes as the size line says, CR LF; then a chunk of
  size zero. The value of a size line is read most significant digit first.
\<close>

definition is_hex_digit :: "char \<Rightarrow> bool" where
  "is_hex_digit c =
     (let n = (of_char c :: nat)
      in (48 \<le> n \<and> n \<le> 57) \<or> (97 \<le> n \<and> n \<le> 102) \<or> (65 \<le> n \<and> n \<le> 70))"

definition hex_digit_value :: "char \<Rightarrow> nat" where
  "hex_digit_value c =
     (let n = (of_char c :: nat)
      in if n \<le> 57 then n - 48 else if 97 \<le> n then n - 87 else n - 55)"

fun hex_value_rev :: "string \<Rightarrow> nat" where
  "hex_value_rev [] = 0"
| "hex_value_rev (c # cs) = hex_digit_value c + 16 * hex_value_rev cs"

definition hex_value :: "string \<Rightarrow> nat" where
  "hex_value h = hex_value_rev (rev h)"

definition size_line :: "string \<Rightarrow> nat \<Rightarrow> bool" where
  "size_line h n = (h \<noteq> [] \<and> list_all is_hex_digit h \<and> hex_value h = n)"

definition chunk_wire :: "string \<times> string \<Rightarrow> string" where
  "chunk_wire c = fst c @ CRLF @ snd c @ CRLF"

definition chunked_wire :: "(string \<times> string) list \<Rightarrow> string \<Rightarrow> string" where
  "chunked_wire chunks z = concat (map chunk_wire chunks) @ z @ CRLF @ CRLF"

definition well_formed_chunks :: "(string \<times> string) list \<Rightarrow> string \<Rightarrow> bool" where
  "well_formed_chunks chunks z =
     (list_all (\<lambda>c. size_line (fst c) (length (snd c)) \<and> snd c \<noteq> []) chunks \<and> size_line z 0)"

section \<open>Responses\<close>

text \<open>
  The body of a \<^verbatim>\<open>Response\<close> is what its stream delivers: the chunks enqueued, and
  \<open>None\<close> when the stream is then closed or \<open>Some e\<close> when it is errored with \<open>e\<close>.
\<close>

type_synonym body = "string list \<times> js_error option"

record response =
  resp_status :: nat
  resp_statusText :: string
  resp_headers :: headers
  resp_body :: body

text \<open>\<^verbatim>\<open>new Response(text, { status })\<close> with a string body.\<close>

definition text_response :: "string \<Rightarrow> nat \<Rightarrow> response" where
  "text_response text status =
     \<lparr>resp_status = status, resp_statusText = [],
      resp_headers = [(''content-type'', ''text/plain;charset=UTF-8'')],
      resp_body = ([text], None)\<rparr>"

text \<open>
  \<^verbatim>\<open>new Response(stream, { status, statusText, headers })\<close>. The constructor throws
  a \<^verbatim>\<open>RangeError\<close> for a status outside 200..599 and a \<^verbatim>\<open>TypeError\<close> for a body
  with a null-body status; the two messages are the runtime's. Its check of the
  status text is not part of the model.
\<close>

definition STATUS_RANGE_MESSAGE :: string where
  "STATUS_RANGE_MESSAGE =
     ''Responses may only be constructed with status codes in the range 200 to 599, inclusive.''"

definition NULL_BODY_MESSAGE :: string where
  "NULL_BODY_MESSAGE =
     ''Response with null body status (101, 204, 205, or 304) cannot have a body.''"

definition new_Response :: "body \<Rightarrow> nat \<Rightarrow> string \<Rightarrow> headers \<Rightarrow> js_error + response" where
  "new_Response b status statusText hdrs =
     (if status < 200 \<or> 599 < status then Inl (Error STATUS_RANGE_MESSAGE)
      else if status = 204 \<or> status = 205 \<or> status = 304 then Inl (Error NULL_BODY_MESSAGE)
      else Inr \<lparr>resp_status = status, resp_statusText = statusText,
                resp_headers = hdrs, resp_body = b\<rparr>)"

text \<open>
  \<^verbatim>\<open>handleError(error, context, status = 500)\<close> of \<^verbatim>\<open>BaseProxy\<close>; the call sites
  that leave the status out pass 500 here.
\<close>

definition handleError :: "js_error \<Rightarrow> string \<Rightarrow> nat \<Rightarrow> response" where
  "handleError error context status =
     text_response (''Error '' @ toLowerCase context @ '': '' @ message error) status"

section \<open>HTTP/1.1 response parsing (\<^verbatim>\<open>parseHttpHeaders\<close>, \<^verbatim>\<open>parseResponse\<close>)\<close>

lemma indexOf_bound: "indexOf s p = Some i \<Longrightarrow> i + length p \<le> length s"
proof (induction s arbitrary: i)
  case Nil
  then show ?case by (auto split: if_splits)
next
  case (Cons c cs)
  then show ?case by (auto split: if_splits dest: prefix_length_le)
qed

text \<open>\<^verbatim>\<open>s.split(sep)\<close> for a separator string.\<close>

function split_str :: "string \<Rightarrow> string \<Rightarrow> string list" where
  "split_str sep s =
     (if sep = [] then map (\<lambda>c. [c]) s
      else (case indexOf s sep of
              None \<Rightarrow> [s]
            | Some i \<Rightarrow> take i s # split_str sep (drop (i + length sep) s)))"
  by pat_completeness auto
termination
proof (relation "measure (\<lambda>(sep, s). length s)")
  show "wf (measure (\<lambda>(sep, s). length s))" by simp
next
  fix sep s :: string and i :: nat
  assume "sep \<noteq> []" and "indexOf s sep = Some i"
  then have "i + length sep \<le> length s" and "sep \<noteq> []"
    using indexOf_bound by auto
  then show "((sep, drop (i + length sep) s), (sep, s)) \<in> measure (\<lambda>(sep, s). length s)"
    by (cases sep) auto
qed

declare split_str.simps [simp del]

text \<open>
  The status line pattern \<^verbatim>\<open>/HTTP\/1\.[01] (\d+) (.*)/\<close>. It is not anchored: the
  match is the first position of the line where the pattern fits. The digits are
  greedy and must be followed by a space; the dot stops at a CR or LF. The result
  is the two groups.
\<close>

definition match_status_here :: "string \<Rightarrow> (string \<times> string) option" where
  "match_status_here s =
     (if prefix ''HTTP/1.'' s then
        (case drop 7 s of
           v # sp # r \<Rightarrow>
             if (v = CHR ''0'' \<or> v = CHR ''1'') \<and> sp = CHR '' '' then
               (case dropWhile is_digit r of
                  c # r' \<Rightarrow>
                    if takeWhile is_digit r \<noteq> [] \<and> c = CHR '' '' then
                      Some (takeWhile is_digit r, takeWhile (\<lambda>c. c \<noteq> CR \<and> c \<noteq> LF) r')
                    else None
                | [] \<Rightarrow> None)
             else None
         | _ \<Rightarrow> None)
      else None)"

fun match_status :: "string \<Rightarrow> (string \<times> string) option" where
  "match_status [] = None"
| "match_status (c # cs) =
     (case match_status_here (c # cs) of
        Some m \<Rightarrow> Some m
      | None \<Rightarrow> match_status cs)"

record parsed_head =
  ph_status :: nat
  ph_statusText :: string
  ph_headers :: headers
  ph_headerEnd :: nat

text \<open>The header loop: a line without \<open>": "\<close> is skipped.\<close>

definition add_header_line :: "string \<Rightarrow> headers \<Rightarrow> headers" where
  "add_header_line line hdrs =
     (case indexOf line '': '' of
        None \<Rightarrow> hdrs
      | Some idx \<Rightarrow> headers_append hdrs (take idx line) (drop (idx + 2) line))"

text \<open>
  \<open>Inr None\<close> is the result \<^verbatim>\<open>null\<close> (no blank line yet), \<open>Inl\<close> the thrown error.
  \<^verbatim>\<open>Number\<close> of the digits of the status is their decimal value.
\<close>

definition parseHttpHeaders :: "string \<Rightarrow> js_error + parsed_head option" where
  "parseHttpHeaders buff =
     (case indexOf buff (CRLF @ CRLF) of
        None \<Rightarrow> Inr None
      | Some headerEnd \<Rightarrow>
          (case split_str CRLF (take headerEnd buff) of
             [] \<Rightarrow> Inl (Error ''Cannot read properties of undefined (reading 'match')'')
           | statusLine # lines \<Rightarrow>
               (case match_status statusLine of
                  None \<Rightarrow> Inl (Error (''Invalid status line: '' @ statusLine))
                | Some (code, reason) \<Rightarrow>
                    Inr (Some \<lparr>ph_status = digits_value 10 code, ph_statusText = reason,
                               ph_headers = fold add_header_line lines [],
                               ph_headerEnd = headerEnd\<rparr>))))"

text \<open>
  The fixed-length loop \<^verbatim>\<open>while (received < contentLength)\<close>; a \<^verbatim>\<open>NaN\<close> content
  length (\<open>None\<close>) makes the comparison false.
\<close>

fun fixed_length :: "js_error option \<Rightarrow> int option \<Rightarrow> nat \<Rightarrow> string list \<Rightarrow> body" where
  "fixed_length fin limit received [] =
     (case limit of
        None \<Rightarrow> ([], None)
      | Some n \<Rightarrow> if int received < n then ([], fin) else ([], None))"
| "fixed_length fin limit received (v # reads) =
     (case limit of
        None \<Rightarrow> ([], None)
      | Some n \<Rightarrow>
          if int received < n then
            (let r = fixed_length fin limit (received + length v) reads
             in (v # fst r, snd r))
          else ([], None))"

text \<open>
  The two constants \<^verbatim>\<open>isChunked\<close> and \<^verbatim>\<open>contentLength\<close> of \<^verbatim>\<open>parseResponse\<close>, and
  what the \<^verbatim>\<open>start\<close> function of the response's stream enqueues, given the parsed
  headers, the bytes \<open>data\<close> that came with the header block and the rest of the
  reader.
\<close>

definition isChunked :: "headers \<Rightarrow> bool" where
  "isChunked hdrs =
     (case headers_get hdrs ''transfer-encoding'' of
        None \<Rightarrow> False
      | Some v \<Rightarrow> sublist ''chunked'' v)"

definition contentLength :: "headers \<Rightarrow> int option" where
  "contentLength hdrs =
     parseInt (case headers_get hdrs ''content-length'' of
                 None \<Rightarrow> ''0''
               | Some v \<Rightarrow> if v = [] then ''0'' else v) 10"

definition response_body :: "js_error option \<Rightarrow> string list \<Rightarrow> headers \<Rightarrow> string \<Rightarrow> body" where
  "response_body fin reads hdrs data =
     (if isChunked hdrs then readChunks fin reads data
      else
        (let r = fixed_length fin (contentLength hdrs) (length data) reads
         in ((if data \<noteq> [] then [data] else []) @ fst r, snd r)))"

fun parseResponse_loop :: "js_error option \<Rightarrow> string \<Rightarrow> string list \<Rightarrow> js_error + response" where
  "parseResponse_loop fin buff [] =
     Inl (case fin of
            Some e \<Rightarrow> e
          | None \<Rightarrow> Error ''Unable to parse response headers'')"
| "parseResponse_loop fin buff (v # reads) =
     (case parseHttpHeaders (buff @ v) of
        Inl e \<Rightarrow> Inl e
      | Inr None \<Rightarrow> parseResponse_loop fin (buff @ v) reads
      | Inr (Some parsed) \<Rightarrow>
          new_Response
            (response_body fin reads (ph_headers parsed) (drop (ph_headerEnd parsed + 4) (buff @ v)))
            (ph_status parsed) (ph_statusText parsed) (ph_headers parsed))"

text \<open>\<^verbatim>\<open>parseResponse(reader)\<close>, the reader given as its chunks and its end.\<close>

definition parseResponse :: "js_error option \<Rightarrow> string list \<Rightarrow> js_error + response" where
  "parseResponse fin reads = parseResponse_loop fin [] reads"

section \<open>Sockets, body streams and the environment\<close>

text \<open>
  A socket of the runtime, as the transports see it: the chunks the peer sends and how
  the readable side ends after them, which writes fail (the \<open>k\<close>-th call of
  \<^verbatim>\<open>writer.write\<close> throws \<open>sock_write_error k\<close>), and the log of what was written.
\<close>

record socket =
  sock_incoming :: "string list"
  sock_read_end :: "js_error option"
  sock_write_error :: "nat \<Rightarrow> js_error option"
  sock_written :: "string list"

definition sock_write :: "socket \<Rightarrow> string \<Rightarrow> js_error + socket" where
  "sock_write s data =
     (case sock_write_error s (length (sock_written s)) of
        Some e \<Rightarrow> Inl e
      | None \<Rightarrow> Inr (s\<lparr>sock_written := sock_written s @ [data]\<rparr>))"

text \<open>
  \<^verbatim>\<open>(await reader.read()).value\<close>: a chunk, \<^verbatim>\<open>undefined\<close> (\<open>None\<close>) at the end of the
  stream, or a thrown error.
\<close>

definition sock_read :: "socket \<Rightarrow> js_error + (string option \<times> socket)" where
  "sock_read s =
     (case sock_incoming s of
        v # rest \<Rightarrow> Inr (Some v, s\<lparr>sock_incoming := rest\<rparr>)
      | [] \<Rightarrow>
          (case sock_read_end s of
             None \<Rightarrow> Inr (None, s)
           | Some e \<Rightarrow> Inl e))"

text \<open>
  Request body streams live in a store: a handle names the chunks not yet read.
  \<^verbatim>\<open>req.clone()\<close> tees the stream: the clone gets a fresh handle with the same chunks,
  and reading one branch leaves the other as it is.
\<close>

record store =
  next_stream :: nat
  stream_chunks :: "nat \<Rightarrow> string list"

definition clone_request :: "store \<Rightarrow> request \<Rightarrow> store \<times> request" where
  "clone_request st req =
     (case req_body req of
        None \<Rightarrow> (st, req)
      | Some h \<Rightarrow>
          (st\<lparr>next_stream := Suc (next_stream st),
              stream_chunks := (stream_chunks st)(next_stream st := stream_chunks st h)\<rparr>,
           req\<lparr>req_body := Some (next_stream st)\<rparr>))"

text \<open>The bytes a body stream still holds; \<open>None\<close> for a \<^verbatim>\<open>null\<close> body.\<close>

definition body_bytes :: "store \<Rightarrow> request \<Rightarrow> string option" where
  "body_bytes st req = map_option (\<lambda>h. concat (stream_chunks st h)) (req_body req)"

text \<open>
  The request that a transport hands to the runtime's \<^verbatim>\<open>fetch\<close>, with the bytes its
  body stream delivers.
\<close>

record fetch_request =
  fr_url :: string
  fr_method :: string
  fr_headers :: headers
  fr_body :: "string option"
  fr_redirect_manual :: bool

text \<open>
  What the runtime does: \<^verbatim>\<open>new URL(s)\<close>, \<^verbatim>\<open>connect({hostname, port}, {secureTransport})\<close>
  (the flag is true for \<open>"on"\<close>), \<^verbatim>\<open>fetch(request)\<close>, and a proxy URL with its
  \<open>target\<close> search parameter set (\<^verbatim>\<open>new URL\<close>, \<^verbatim>\<open>searchParams.set\<close>, \<^verbatim>\<open>toString\<close>).
  \<open>Inl\<close> is a thrown error.
\<close>

record env =
  env_URL :: "string \<Rightarrow> js_error + url"
  env_connect :: "string \<Rightarrow> int \<Rightarrow> bool \<Rightarrow> js_error + socket"
  env_fetch :: "fetch_request \<Rightarrow> js_error + response"
  env_with_target :: "string \<Rightarrow> string \<Rightarrow> js_error + string"

section \<open>Number conversions\<close>

text \<open>
  \<^verbatim>\<open>Number(s)\<close> on decimal integer text: white space around it goes, the empty string
  is 0, an optional sign and decimal digits give their value, and anything else is
  \<^verbatim>\<open>NaN\<close> (\<open>None\<close>). The other literals that \<^verbatim>\<open>Number\<close> reads (hexadecimal, fractions,
  exponents, \<open>Infinity\<close>) are \<^verbatim>\<open>NaN\<close> in this model.
\<close>

definition js_Number :: "string \<Rightarrow> int option" where
  "js_Number s =
     (let t = dropWhile is_space (rev (dropWhile is_space (rev s)));
          d = (if prefix ''-'' t \<or> prefix ''+'' t then drop 1 t else t)
      in if t = [] then Some 0
         else if d \<noteq> [] \<and> list_all is_digit d then
           Some ((if prefix ''-'' t then - 1 else 1) * int (digits_value 10 d))
         else None)"

text \<open>An element stored into a \<^verbatim>\<open>Uint8Array\<close>: modulo 256, and 0 for \<^verbatim>\<open>NaN\<close>.\<close>

definition uint8 :: "int option \<Rightarrow> char" where
  "uint8 x = (case x of None \<Rightarrow> char_of (0 :: nat) | Some i \<Rightarrow> char_of (nat (i mod 256)))"

text \<open>A non-negative number in a template string.\<close>

fun decimal :: "nat \<Rightarrow> string" where
  "decimal n =
     (if n < 10 then [char_of (48 + n)]
      else decimal (n div 10) @ [char_of (48 + n mod 10)])"

declare decimal.simps [simp del]

section \<open>Request serialisation and the exchange over a socket\<close>

text \<open>
  The request line and headers that \<^verbatim>\<open>connectHttp\<close> of the Socket and SOCKS5
  transports write first.
\<close>

definition request_head :: "request \<Rightarrow> url \<Rightarrow> headers \<Rightarrow> string" where
  "request_head req targetUrl cleanedHeaders =
     req_method req @ '' '' @ pathname targetUrl @ search targetUrl @ '' HTTP/1.1'' @ CRLF
     @ join CRLF (map (\<lambda>(k, v). k @ '': '' @ v) (headers_entries cleanedHeaders))
     @ CRLF @ CRLF"

text \<open>
  The body loop: each chunk read from the request's stream is written to the socket.
  The result is the thrown error if any, the socket, and the chunks left unread.
\<close>

fun forward_body :: "socket \<Rightarrow> string list \<Rightarrow> js_error option \<times> socket \<times> string list" where
  "forward_body s [] = (None, s, [])"
| "forward_body s (v # rest) =
     (case sock_write s v of
        Inl e \<Rightarrow> (Some e, s, rest)
      | Inr s' \<Rightarrow> forward_body s' rest)"

text \<open>
  The lines both transports share once the socket is open: write the head, forward
  the body if there is one, parse the response. The result is the store afterwards,
  the socket's write log at that moment, and the response or the thrown error.
\<close>

definition http_exchange :: "socket \<Rightarrow> store \<Rightarrow> request \<Rightarrow> url \<Rightarrow> headers
                              \<Rightarrow> store \<times> string list \<times> (js_error + response)" where
  "http_exchange sock st req targetUrl cleanedHeaders =
     (case sock_write sock (request_head req targetUrl cleanedHeaders) of
        Inl e \<Rightarrow> (st, sock_written sock, Inl e)
      | Inr s1 \<Rightarrow>
          (case req_body req of
             None \<Rightarrow> (st, sock_written s1, parseResponse (sock_read_end s1) (sock_incoming s1))
           | Some h \<Rightarrow>
               (case forward_body s1 (stream_chunks st h) of
                  (Some e, s2, rest) \<Rightarrow>
                    (st\<lparr>stream_chunks := (stream_chunks st)(h := rest)\<rparr>, sock_written s2, Inl e)
                | (None, s2, rest) \<Rightarrow>
                    (st\<lparr>stream_chunks := (stream_chunks st)(h := rest)\<rparr>, sock_written s2,
                     parseResponse (sock_read_end s2) (sock_incoming s2)))))"

text \<open>
  The headers the Socket and SOCKS5 transports send on their HTTP path: the sanitized
  inbound headers, then \<open>Host\<close> and \<open>accept-encoding\<close> set.
\<close>

definition socket_http_headers :: "request \<Rightarrow> url \<Rightarrow> headers" where
  "socket_http_headers req targetUrl =
     headers_set (headers_set (filterHeaders (req_headers req)) ''Host'' (hostname targetUrl))
       ''accept-encoding'' ''identity''"

section \<open>SOCKS5 client (\<^verbatim>\<open>Socks5Proxy\<close>)\<close>

record socks5_address =
  socks_username :: "string option"
  socks_password :: "string option"
  socks_hostname :: string
  socks_port :: int

text \<open>
  \<^verbatim>\<open>parseSocks5Address\<close>. The pattern \<^verbatim>\<open>/^\[.*\]$/\<close> asks for a bracket at each end
  and no line break between them.
\<close>

definition bracketed :: "string \<Rightarrow> bool" where
  "bracketed h =
     (2 \<le> length h \<and> prefix ''['' h \<and> suffix '']'' h
      \<and> list_all (\<lambda>c. c \<noteq> CR \<and> c \<noteq> LF) h)"

definition parseSocks5Address :: "string \<Rightarrow> js_error + socks5_address" where
  "parseSocks5Address address =
     (let parts = rev (split_on CHR ''@'' address);
          latter = (case parts of l # _ \<Rightarrow> l | [] \<Rightarrow> []);
          former = (case parts of _ # f # _ \<Rightarrow> Some f | _ \<Rightarrow> None);
          formers = (case former of None \<Rightarrow> [] | Some f \<Rightarrow> split_on CHR '':'' f);
          latters = split_on CHR '':'' latter;
          number = js_Number (last latters);
          host = join '':'' (butlast latters)
      in if former \<noteq> None \<and> former \<noteq> Some [] \<and> length formers \<noteq> 2 then
           Inl (Error ''Invalid SOCKS address format'')
         else
           (case number of
              None \<Rightarrow> Inl (Error ''Invalid SOCKS address format'')
            | Some p \<Rightarrow>
                if sublist '':'' host \<and> \<not> bracketed host then
                  Inl (Error ''Invalid SOCKS address format'')
                else
                  Inr \<lparr>socks_username =
                         (if former \<noteq> None \<and> former \<noteq> Some [] then Some (formers ! 0) else None),
                       socks_password =
                         (if former \<noteq> None \<and> former \<noteq> Some [] then Some (formers ! 1) else None),
                       socks_hostname = host, socks_port = p\<rparr>))"

text \<open>\<^verbatim>\<open>!username\<close>: undefined or the empty string.\<close>

definition falsy :: "string option \<Rightarrow> bool" where
  "falsy s = (s = None \<or> s = Some [])"

text \<open>\<^verbatim>\<open>res[i]\<close> on a \<^verbatim>\<open>Uint8Array\<close>: \<open>None\<close> is \<^verbatim>\<open>undefined\<close>.\<close>

definition byte_at :: "string \<Rightarrow> nat \<Rightarrow> nat option" where
  "byte_at res i = (if i < length res then Some (of_char (res ! i)) else None)"

definition show_byte :: "nat option \<Rightarrow> string" where
  "show_byte b = (case b of None \<Rightarrow> ''undefined'' | Some n \<Rightarrow> decimal n)"

definition UNDEFINED_INDEX_MESSAGE :: string where
  "UNDEFINED_INDEX_MESSAGE = ''Cannot read properties of undefined (reading '0')''"

text \<open>
  \<open>DSTADDR\<close>: the address type byte and the address, by the \<open>addressType\<close> argument
  (1 IPv4, 2 domain name, 3 IPv6).
\<close>

definition socks_dstaddr :: "nat \<Rightarrow> string \<Rightarrow> js_error + string" where
  "socks_dstaddr addressType addressRemote =
     (if addressType = 1 then
        Inr (char_of (1 :: nat) # map (\<lambda>x. uint8 (js_Number x)) (split_on CHR ''.'' addressRemote))
      else if addressType = 2 then
        Inr ([char_of (3 :: nat), char_of (length addressRemote)] @ addressRemote)
      else if addressType = 3 then
        Inr (char_of (4 :: nat) #
             concat (map (\<lambda>x. [uint8 (parseInt (take 2 x) 16), uint8 (parseInt (drop 2 x) 16)])
                         (split_on CHR '':'' addressRemote)))
      else Inl (Error (''invalid addressType is '' @ decimal addressType)))"

text \<open>
  The last step of \<^verbatim>\<open>socks5Connect\<close>: the CONNECT request and its reply. A thrown
  error comes with the socket's write log at that moment.
\<close>

definition socks_request :: "socket \<Rightarrow> nat \<Rightarrow> string \<Rightarrow> int
                              \<Rightarrow> (js_error \<times> string list) + socket" where
  "socks_request s addressType addressRemote portRemote =
     (case socks_dstaddr addressType addressRemote of
        Inl e \<Rightarrow> Inl (e, sock_written s)
      | Inr DSTADDR \<Rightarrow>
          (case sock_write s ([char_of (5 :: nat), char_of (1 :: nat), char_of (0 :: nat)] @ DSTADDR
                               @ [uint8 (Some (portRemote div 256)), uint8 (Some (portRemote mod 256))]) of
             Inl e \<Rightarrow> Inl (e, sock_written s)
           | Inr s1 \<Rightarrow>
               (case sock_read s1 of
                  Inl e \<Rightarrow> Inl (e, sock_written s1)
                | Inr (None, s2) \<Rightarrow> Inl (Error UNDEFINED_INDEX_MESSAGE, sock_written s2)
                | Inr (Some res, s2) \<Rightarrow>
                    if byte_at res 1 = Some 0 then Inr s2
                    else Inl (Error ''fail to open socks connection'', sock_written s2))))"

text \<open>The username/password sub-negotiation, entered when the server selects method 2.\<close>

definition socks_auth :: "socks5_address \<Rightarrow> socket \<Rightarrow> (js_error \<times> string list) + socket" where
  "socks_auth addr s =
     (if falsy (socks_username addr) \<or> falsy (socks_password addr) then
        Inl (Error ''please provide username/password'', sock_written s)
      else
        (let username = (case socks_username addr of Some u \<Rightarrow> u | None \<Rightarrow> []);
             password = (case socks_password addr of Some p \<Rightarrow> p | None \<Rightarrow> [])
         in case sock_write s ([char_of (1 :: nat), char_of (length username)] @ username
                               @ [char_of (length password)] @ password) of
              Inl e \<Rightarrow> Inl (e, sock_written s)
            | Inr s1 \<Rightarrow>
                (case sock_read s1 of
                   Inl e \<Rightarrow> Inl (e, sock_written s1)
                 | Inr (None, s2) \<Rightarrow> Inl (Error UNDEFINED_INDEX_MESSAGE, sock_written s2)
                 | Inr (Some res, s2) \<Rightarrow>
                     if byte_at res 0 \<noteq> Some 1 \<or> byte_at res 1 \<noteq> Some 0 then
                       Inl (Error ''fail to auth socks server'', sock_written s2)
                     else Inr s2)))"

definition socks_greeting :: string where
  "socks_greeting = [char_of (5 :: nat), char_of (2 :: nat), char_of (0 :: nat), char_of (2 :: nat)]"

text \<open>
  \<^verbatim>\<open>socks5Connect(addressType, addressRemote, portRemote)\<close>: the socket ready for the
  caller, or the thrown error with everything written to the socket before it.
\<close>

definition socks5Connect :: "env \<Rightarrow> socks5_address \<Rightarrow> nat \<Rightarrow> string \<Rightarrow> int
                              \<Rightarrow> (js_error \<times> string list) + socket" where
  "socks5Connect e addr addressType addressRemote portRemote =
     (case env_connect e (socks_hostname addr) (socks_port addr) False of
        Inl err \<Rightarrow> Inl (err, [])
      | Inr s0 \<Rightarrow>
          (case sock_write s0 socks_greeting of
             Inl err \<Rightarrow> Inl (err, sock_written s0)
           | Inr s1 \<Rightarrow>
               (case sock_read s1 of
                  Inl err \<Rightarrow> Inl (err, sock_written s1)
                | Inr (None, s2) \<Rightarrow> Inl (Error UNDEFINED_INDEX_MESSAGE, sock_written s2)
                | Inr (Some res, s2) \<Rightarrow>
                    if byte_at res 0 \<noteq> Some 5 then
                      Inl (Error (''socks server version error: '' @ show_byte (byte_at res 0)
                                  @ '' expected: 5''), sock_written s2)
                    else if byte_at res 1 = Some 255 then
                      Inl (Error ''no acceptable methods'', sock_written s2)
                    else if byte_at res 1 = Some 2 then
                      (case socks_auth addr s2 of
                         Inl err \<Rightarrow> Inl err
                       | Inr s3 \<Rightarrow> socks_request s3 addressType addressRemote portRemote)
                    else socks_request s2 addressType addressRemote portRemote)))"

text \<open>
  \<^verbatim>\<open>Number(targetUrl.port) || (targetUrl.protocol === "https:" ? 443 : 80)\<close>: a
  \<^verbatim>\<open>NaN\<close> or zero port gives way to the scheme's default.
\<close>

definition port_or_default :: "url \<Rightarrow> int" where
  "port_or_default targetUrl =
     (case js_Number (port targetUrl) of
        None \<Rightarrow> (if protocol targetUrl = ''https:'' then 443 else 80)
      | Some p \<Rightarrow> if p = 0 then (if protocol targetUrl = ''https:'' then 443 else 80) else p)"

text \<open>
  The \<^verbatim>\<open>try\<close> block of \<^verbatim>\<open>Socks5Proxy.connectHttp\<close>: everything written to the
  proxy's socket, and the response or the error caught.
\<close>

definition Socks5Proxy_try :: "env \<Rightarrow> socks5_address \<Rightarrow> store \<Rightarrow> request \<Rightarrow> url
                                \<Rightarrow> string list \<times> (js_error + response)" where
  "Socks5Proxy_try e addr st req targetUrl =
     (case socks5Connect e addr 2 (hostname targetUrl) (port_or_default targetUrl) of
        Inl (err, written) \<Rightarrow> (written, Inl err)
      | Inr sock \<Rightarrow>
          (case http_exchange sock st req targetUrl (socket_http_headers req targetUrl) of
             (st', written, r) \<Rightarrow> (written, r)))"

definition Socks5Proxy_connectHttp :: "env \<Rightarrow> socks5_address \<Rightarrow> store \<Rightarrow> request \<Rightarrow> string
                                        \<Rightarrow> js_error + response" where
  "Socks5Proxy_connectHttp e addr st req dstUrl =
     (case env_URL e dstUrl of
        Inl err \<Rightarrow> Inl err
      | Inr targetUrl \<Rightarrow>
          (case snd (Socks5Proxy_try e addr st req targetUrl) of
             Inl err \<Rightarrow> Inr (handleError err ''SOCKS5 connection'' 500)
           | Inr resp \<Rightarrow> Inr resp))"

section \<open>The \<^verbatim>\<open>fetch\<close>-based transports\<close>

text \<open>The request \<^verbatim>\<open>FetchProxy.connectHttp\<close> builds for \<^verbatim>\<open>fetch\<close>.\<close>

definition fetch_http_headers :: "request \<Rightarrow> url \<Rightarrow> headers" where
  "fetch_http_headers req targetUrl =
     headers_set (filterHeaders (req_headers req)) ''Host'' (hostname targetUrl)"

definition fetch_http_request :: "store \<Rightarrow> request \<Rightarrow> string \<Rightarrow> url \<Rightarrow> fetch_request" where
  "fetch_http_request st req dstUrl targetUrl =
     \<lparr>fr_url = dstUrl, fr_method = req_method req,
      fr_headers = fetch_http_headers req targetUrl,
      fr_body = body_bytes st req, fr_redirect_manual = False\<rparr>"

definition FetchProxy_connectHttp :: "env \<Rightarrow> store \<Rightarrow> request \<Rightarrow> string \<Rightarrow> js_error + response" where
  "FetchProxy_connectHttp e st req dstUrl =
     (case env_URL e dstUrl of
        Inl err \<Rightarrow> Inl err
      | Inr targetUrl \<Rightarrow>
          (case env_fetch e (fetch_http_request st req dstUrl targetUrl) of
             Inl err \<Rightarrow> Inr (handleError err ''Fetch connection'' 500)
           | Inr resp \<Rightarrow> Inr resp))"

text \<open>
  \<^verbatim>\<open>ThirdPartyProxy.connectHttp\<close> and \<^verbatim>\<open>CloudProviderProxy.connectHttp\<close>: the same
  lines with their own URL key and texts; the inbound headers go out unfiltered.
\<close>

definition via_proxy_url :: "env \<Rightarrow> store \<Rightarrow> request \<Rightarrow> string \<Rightarrow> string \<Rightarrow> string \<Rightarrow> string
                              \<Rightarrow> js_error + response" where
  "via_proxy_url e st req dstUrl proxyUrl notConfigured context =
     (if proxyUrl = [] then Inr (handleError (Error notConfigured) context 500)
      else
        (case env_with_target e proxyUrl dstUrl of
           Inl err \<Rightarrow> Inl err
         | Inr proxied \<Rightarrow>
             (case env_fetch e \<lparr>fr_url = proxied, fr_method = req_method req,
                                fr_headers = req_headers req, fr_body = body_bytes st req,
                                fr_redirect_manual = True\<rparr> of
                Inl err \<Rightarrow> Inr (handleError err context 500)
              | Inr resp \<Rightarrow> Inr resp)))"

definition ThirdPartyProxy_connectHttp :: "env \<Rightarrow> config \<Rightarrow> store \<Rightarrow> request \<Rightarrow> string
                                            \<Rightarrow> js_error + response" where
  "ThirdPartyProxy_connectHttp e cfg st req dstUrl =
     via_proxy_url e st req dstUrl (THIRD_PARTY_PROXY_URL cfg)
       ''Third party proxy URL is not configured'' ''Third party proxy connection''"

definition CloudProviderProxy_connectHttp :: "env \<Rightarrow> config \<Rightarrow> store \<Rightarrow> request \<Rightarrow> string
                                               \<Rightarrow> js_error + response" where
  "CloudProviderProxy_connectHttp e cfg st req dstUrl =
     via_proxy_url e st req dstUrl (CLOUD_PROVIDER_URL cfg)
       ''Cloud provider URL is not configured'' ''Cloud provider proxy connection''"

section \<open>Socket transport, HTTP path (\<^verbatim>\<open>SocketProxy.connectHttp\<close>)\<close>

text \<open>
  \<^verbatim>\<open>isCloudflareNetworkError\<close>: \<^verbatim>\<open>error.message && (...)\<close>, used as a condition.
  \<open>NETWORK_ERROR_MESSAGES\<close> lists the nine texts of the error classification table,
  for comparison with the method's own chain of \<^verbatim>\<open>includes\<close> calls.
\<close>

definition NETWORK_ERROR_MESSAGES :: "string list" where
  "NETWORK_ERROR_MESSAGES =
     [''A network issue was detected'', ''Network connection failure'', ''connection failed'',
      ''timed out'', ''Stream was cancelled'', ''proxy request failed'',
      ''cannot connect to the specified address'', ''TCP Loop detected'',
      ''Connections to port 25 are prohibited'']"

definition isCloudflareNetworkError :: "js_error \<Rightarrow> bool" where
  "isCloudflareNetworkError error =
     (message error \<noteq> [] \<and>
      (sublist ''A network issue was detected'' (message error)
       \<or> sublist ''Network connection failure'' (message error)
       \<or> sublist ''connection failed'' (message error)
       \<or> sublist ''timed out'' (message error)
       \<or> sublist ''Stream was cancelled'' (message error)
       \<or> sublist ''proxy request failed'' (message error)
       \<or> sublist ''cannot connect to the specified address'' (message error)
       \<or> sublist ''TCP Loop detected'' (message error)
       \<or> sublist ''Connections to port 25 are prohibited'' (message error)))"

text \<open>
  The address and the TLS flag that the \<^verbatim>\<open>try\<close> block passes to \<^verbatim>\<open>connect\<close>:
  \<^verbatim>\<open>const port = targetUrl.protocol === "https:" ? 443 : 80\<close>.
\<close>

definition socket_http_target :: "url \<Rightarrow> string \<times> int \<times> bool" where
  "socket_http_target targetUrl =
     (hostname targetUrl,
      (if protocol targetUrl = ''https:'' then 443 else 80),
      protocol targetUrl = ''https:'')"

text \<open>
  The \<^verbatim>\<open>try\<close> block: the store after it, everything written to the socket, and the
  response or the error caught. \<open>socket_attempt\<close> is the same without the write log.
\<close>

definition socket_try :: "env \<Rightarrow> store \<Rightarrow> request \<Rightarrow> url
                           \<Rightarrow> store \<times> string list \<times> (js_error + response)" where
  "socket_try e st req targetUrl =
     (case socket_http_target targetUrl of
        (host, prt, secure) \<Rightarrow>
          (case env_connect e host prt secure of
             Inl err \<Rightarrow> (st, [], Inl err)
           | Inr sock \<Rightarrow>
               http_exchange sock st req targetUrl (socket_http_headers req targetUrl)))"

definition socket_attempt :: "env \<Rightarrow> store \<Rightarrow> request \<Rightarrow> url \<Rightarrow> store \<times> (js_error + response)" where
  "socket_attempt e st req targetUrl =
     (case socket_try e st req targetUrl of (st', written, r) \<Rightarrow> (st', r))"

text \<open>
  The fallback of the \<^verbatim>\<open>catch\<close> block: the proxy named by
  \<^verbatim>\<open>this.config.FALLBACK_PROXY_STRATEGY || "fetch"\<close> is built and its
  \<^verbatim>\<open>connectHttp\<close> is called with the clone. Building a \<^verbatim>\<open>Socks5Proxy\<close> parses
  \<^verbatim>\<open>SOCKS5_ADDRESS\<close> and may throw.
\<close>

definition fallbackStrategy :: "config \<Rightarrow> string" where
  "fallbackStrategy cfg =
     (if FALLBACK_PROXY_STRATEGY cfg = [] then ''fetch'' else FALLBACK_PROXY_STRATEGY cfg)"

definition fallback_connectHttp :: "env \<Rightarrow> config \<Rightarrow> store \<Rightarrow> request \<Rightarrow> string
                                     \<Rightarrow> js_error + response" where
  "fallback_connectHttp e cfg st reqForFallback dstUrl =
     (let fallbackConfig = cfg\<lparr>PROXY_STRATEGY := fallbackStrategy cfg\<rparr>;
          strategy = toLowerCase (fallbackStrategy cfg)
      in if strategy = ''fetch'' then FetchProxy_connectHttp e st reqForFallback dstUrl
         else if strategy = ''socks5'' then
           (case parseSocks5Address (SOCKS5_ADDRESS fallbackConfig) of
              Inl err \<Rightarrow> Inl err
            | Inr addr \<Rightarrow> Socks5Proxy_connectHttp e addr st reqForFallback dstUrl)
         else if strategy = ''thirdparty'' then
           ThirdPartyProxy_connectHttp e fallbackConfig st reqForFallback dstUrl
         else if strategy = ''cloudprovider'' then
           CloudProviderProxy_connectHttp e fallbackConfig st reqForFallback dstUrl
         else FetchProxy_connectHttp e st reqForFallback dstUrl)"

text \<open>
  \<^verbatim>\<open>SocketProxy.connectHttp(req, dstUrl)\<close>. \<open>Inl\<close> is an error that leaves the
  method: from \<^verbatim>\<open>new URL(dstUrl)\<close>, which stands before the \<^verbatim>\<open>try\<close>, or from the
  fallback.
\<close>

definition SocketProxy_connectHttp :: "env \<Rightarrow> config \<Rightarrow> store \<Rightarrow> request \<Rightarrow> string
                                        \<Rightarrow> js_error + response" where
  "SocketProxy_connectHttp e cfg st req dstUrl =
     (case clone_request st req of
        (st1, reqForFallback) \<Rightarrow>
          (case env_URL e dstUrl of
             Inl err \<Rightarrow> Inl err
           | Inr targetUrl \<Rightarrow>
               (case socket_attempt e st1 req targetUrl of
                  (st2, Inr resp) \<Rightarrow> Inr resp
                | (st2, Inl error) \<Rightarrow>
                    if isCloudflareNetworkError error then
                      fallback_connectHttp e cfg st2 reqForFallback dstUrl
                    else Inr (handleError error ''Socket connection'' 500))))"

section \<open>DNS over TLS (\<^verbatim>\<open>DoTProxy.handleDnsQuery\<close>) and the \<^verbatim>\<open>fetch\<close> DNS path\<close>

definition DATAVIEW_RANGE_MESSAGE :: string where
  "DATAVIEW_RANGE_MESSAGE = ''Offset is outside the bounds of the DataView''"

text \<open>A response with a byte body and the DNS content type; the status is 200.\<close>

definition dns_response :: "string \<Rightarrow> response" where
  "dns_response bytes =
     \<lparr>resp_status = 200, resp_statusText = [],
      resp_headers = [(''content-type'', ''application/dns-message'')],
      resp_body = ([bytes], None)\<rparr>"

text \<open>
  The \<^verbatim>\<open>try\<close> block after the query is read: the TLS socket, the query behind its
  two-byte big-endian length, the reply read to the end of the stream, and the
  payload cut out by the reply's own length prefix (\<^verbatim>\<open>getUint16\<close> throws a
  \<^verbatim>\<open>RangeError\<close> on a reply shorter than two bytes).
\<close>

definition dot_exchange :: "env \<Rightarrow> config \<Rightarrow> string \<Rightarrow> js_error + response" where
  "dot_exchange e cfg clientDnsQuery =
     (case env_connect e
             (if DOT_SERVER_HOSTNAME cfg = [] then ''some-niche-dns.com'' else DOT_SERVER_HOSTNAME cfg)
             (if DOT_SERVER_PORT cfg = 0 then 853 else int (DOT_SERVER_PORT cfg)) True of
        Inl err \<Rightarrow> Inl err
      | Inr sock \<Rightarrow>
          (case sock_write sock
                  ([uint8 (Some (int (length clientDnsQuery) div 256)),
                    uint8 (Some (int (length clientDnsQuery) mod 256))] @ clientDnsQuery) of
             Inl err \<Rightarrow> Inl err
           | Inr s1 \<Rightarrow>
               (case sock_read_end s1 of
                  Some err \<Rightarrow> Inl err
                | None \<Rightarrow>
                    (let fullResponse = concat (sock_incoming s1)
                     in if length fullResponse < 2 then Inl (Error DATAVIEW_RANGE_MESSAGE)
                        else
                          (let responseLength =
                                 256 * (of_char (fullResponse ! 0) :: nat) + of_char (fullResponse ! 1)
                           in Inr (dns_response (take responseLength (drop 2 fullResponse))))))))"

text \<open>The DoH request that the \<^verbatim>\<open>catch\<close> block of the DoT path sends with \<^verbatim>\<open>fetch\<close>.\<close>

definition dot_fallback_request :: "config \<Rightarrow> string \<Rightarrow> fetch_request" where
  "dot_fallback_request cfg clientDnsQuery =
     \<lparr>fr_url = ''https://'' @ DOH_SERVER_HOSTNAME cfg
                @ (if DOH_SERVER_PATH cfg = [] then ''/dns-query'' else DOH_SERVER_PATH cfg),
      fr_method = ''POST'',
      fr_headers =
        headers_set
          (headers_set (headers_set [] ''Host'' (DOH_SERVER_HOSTNAME cfg))
             ''Content-Type'' ''application/dns-message'')
          ''Accept'' ''application/dns-message'',
      fr_body = Some clientDnsQuery, fr_redirect_manual = False\<rparr>"

text \<open>
  \<^verbatim>\<open>DoTProxy.handleDnsQuery(req)\<close>. The inner \<^verbatim>\<open>catch\<close> calls
  \<^verbatim>\<open>handleError(fallbackError, 'DoT and subsequent DoH fallback')\<close> with no status
  argument, so the parameter's default 500 applies.
\<close>

definition DoTProxy_handleDnsQuery :: "env \<Rightarrow> config \<Rightarrow> store \<Rightarrow> request \<Rightarrow> response" where
  "DoTProxy_handleDnsQuery e cfg st req =
     (if req_method req \<noteq> ''POST''
         \<or> headers_get (req_headers req) ''content-type'' \<noteq> Some ''application/dns-message''
      then text_response ''This is a DNS proxy. Please use a DoT client.'' 400
      else
        (let clientDnsQuery = (case body_bytes st req of None \<Rightarrow> [] | Some b \<Rightarrow> b)
         in case dot_exchange e cfg clientDnsQuery of
              Inr resp \<Rightarrow> resp
            | Inl socketError \<Rightarrow>
                (case env_fetch e (dot_fallback_request cfg clientDnsQuery) of
                   Inr resp \<Rightarrow> resp
                 | Inl fallbackError \<Rightarrow>
                     handleError fallbackError ''DoT and subsequent DoH fallback'' 500)))"

text \<open>
  \<^verbatim>\<open>FetchProxy.handleDnsQuery(req)\<close>, the DoH path over \<^verbatim>\<open>fetch\<close>: its \<^verbatim>\<open>catch\<close>
  passes the status 502.
\<close>

definition FetchProxy_handleDnsQuery :: "env \<Rightarrow> config \<Rightarrow> store \<Rightarrow> request \<Rightarrow> response" where
  "FetchProxy_handleDnsQuery e cfg st req =
     (let host = (if DOH_SERVER_HOSTNAME cfg = [] then ''dns.google'' else DOH_SERVER_HOSTNAME cfg);
          path = (if DOH_SERVER_PATH cfg = [] then ''/dns-query'' else DOH_SERVER_PATH cfg);
          cleanedHeaders =
            headers_set
              (headers_set (headers_set (filterHeaders (req_headers req)) ''Host'' host)
                 ''Content-Type'' ''application/dns-message'')
              ''Accept'' ''application/dns-message''
      in case env_fetch e \<lparr>fr_url = ''https://'' @ host @ path, fr_method = req_method req,
                            fr_headers = cleanedHeaders, fr_body = body_bytes st req,
                            fr_redirect_manual = False\<rparr> of
           Inr resp \<Rightarrow> resp
         | Inl err \<Rightarrow> handleError err ''Fetch DNS query handling'' 502)"

section \<open>Sample environments\<close>

text \<open>
  A socket whose writes fail with the given message from the \<open>k\<close>-th on, an
  environment whose sockets are all that socket and whose \<^verbatim>\<open>fetch\<close> throws, and
  one whose \<^verbatim>\<open>fetch\<close> echoes the request body with status 200.
\<close>

definition failing_socket :: "nat \<Rightarrow> string \<Rightarrow> socket" where
  "failing_socket k msg =
     \<lparr>sock_incoming = [], sock_read_end = None,
      sock_write_error = (\<lambda>i. if i < k then None else Some (Error msg)), sock_written = []\<rparr>"

definition sample_url :: "string \<Rightarrow> js_error + url" where
  "sample_url s =
     (if s = ''http://example.com:8080/post'' then
        Inr \<lparr>protocol = ''http:'', hostname = ''example.com'', port = ''8080'',
             pathname = ''/post'', search = []\<rparr>
      else Inl (Error ''Invalid URL''))"

definition echo_response :: "fetch_request \<Rightarrow> response" where
  "echo_response r =
     \<lparr>resp_status = 200, resp_statusText = ''OK'', resp_headers = [],
      resp_body = ((case fr_body r of None \<Rightarrow> [] | Some b \<Rightarrow> [b]), None)\<rparr>"

definition dead_env :: "string \<Rightarrow> string \<Rightarrow> env" where
  "dead_env socket_msg fetch_msg =
     \<lparr>env_URL = sample_url,
      env_connect = (\<lambda>host prt secure. Inr (failing_socket 0 socket_msg)),
      env_fetch = (\<lambda>r. Inl (Error fetch_msg)),
      env_with_target = (\<lambda>p t. Inr (p @ ''?target='' @ t))\<rparr>"

definition fallback_env :: "nat \<Rightarrow> string \<Rightarrow> env" where
  "fallback_env k socket_msg =
     \<lparr>env_URL = sample_url,
      env_connect = (\<lambda>host prt secure. Inr (failing_socket k socket_msg)),
      env_fetch = (\<lambda>r. Inr (echo_response r)),
      env_with_target = (\<lambda>p t. Inr (p @ ''?target='' @ t))\<rparr>"

text \<open>A store with one body stream, and a POST request that owns it.\<close>

definition sample_store :: "string list \<Rightarrow> store" where
  "sample_store chunks = \<lparr>next_stream = 1, stream_chunks = (\<lambda>h. if h = 0 then chunks else [])\<rparr>"

definition sample_post :: "headers \<Rightarrow> request" where
  "sample_post hdrs =
     \<lparr>req_method = ''POST'',
      req_url = \<lparr>protocol = ''https:'', hostname = ''gw.example'', port = [],
                 pathname = ''/TOK/http/example.com:8080/post'', search = []\<rparr>,
      req_headers = hdrs, req_body = Some 0\<rparr>"

text \<open>
  An environment whose every socket is a SOCKS5 server that answers the greeting with
  the given reply, and one whose \<^verbatim>\<open>connect\<close> throws an error naming the address it
  was given.
\<close>

definition socks_env :: "string \<Rightarrow> env" where
  "socks_env reply =
     \<lparr>env_URL = sample_url,
      env_connect = (\<lambda>host prt secure.
         Inr \<lparr>sock_incoming = [reply], sock_read_end = None,
              sock_write_error = (\<lambda>i. None), sock_written = []\<rparr>),
      env_fetch = (\<lambda>r. Inr (echo_response r)),
      env_with_target = (\<lambda>p t. Inr (p @ ''?target='' @ t))\<rparr>"

definition reporting_env :: env where
  "reporting_env =
     \<lparr>env_URL = sample_url,
      env_connect = (\<lambda>host prt secure. Inl (Error (host @ '':'' @ decimal (nat prt)))),
      env_fetch = (\<lambda>r. Inr (echo_response r)),
      env_with_target = (\<lambda>p t. Inr (p @ ''?target='' @ t))\<rparr>"



section \<open>Properties of the frame packer\<close>

lemma mask_loop_length: "length (mask_loop msk p i) = length p"
  by (induction p arbitrary: i) auto

lemma mask_loop_nth:
  "k < length p \<Longrightarrow> mask_loop msk p i ! k = (p ! k) XOR (msk ! ((i + k) mod 4))"
proof (induction p arbitrary: i k)
  case Nil
  then show ?case by simp
next
  case (Cons b bs)
  then show ?case by (cases k) auto
qed

lemma unmask_nth:
  assumes "k < length p"
  shows "p ! k = (mask_loop msk p 0 ! k) XOR (msk ! (k mod 4))"
proof -
  have "(mask_loop msk p 0 ! k) XOR (msk ! (k mod 4))
        = (p ! k) XOR ((msk ! (k mod 4)) XOR (msk ! (k mod 4)))"
    using assms by (simp add: mask_loop_nth xor.assoc)
  then show ?thesis by simp
qed

lemma byte_and_ff: "(x :: byte) AND 0xff = x"
proof -
  have "(0xff :: byte) = mask 8" by (simp add: mask_eq_exp_minus_1)
  then have "x AND 0xff = take_bit 8 x" by (simp only: take_bit_eq_mask)
  moreover have "take_bit 8 x = x" by (rule take_bit_word_eq_self) simp
  ultimately show ?thesis by simp
qed

lemma len7_field:
  assumes "n < 128"
  shows "((0x80 :: byte) OR of_nat n) AND 0x7f = of_nat n"
proof -
  have m: "(0x7f :: byte) = mask 7" by (simp add: mask_eq_exp_minus_1)
  have a: "(0x80 :: byte) AND 0x7f = 0" by simp
  have "(of_nat n :: byte) AND mask 7 = of_nat (take_bit 7 n)"
    by (simp add: take_bit_of_nat flip: take_bit_eq_mask)
  also have "take_bit 7 n = n" using assms by (simp add: take_bit_nat_eq_self)
  finally have b: "(of_nat n :: byte) AND 0x7f = of_nat n" using m by simp
  show ?thesis by (simp only: bit.conj_disj_distrib2 a b) simp
qed

lemma mask_bit_set: "bit ((0x80 :: byte) OR x) 7"
  by (simp add: bit_or_iff)

lemma len16_big_endian:
  assumes "n < 65536"
  shows "256 * unat ((of_nat (drop_bit 8 n) :: byte) AND 0xff)
         + unat ((of_nat n :: byte) AND 0xff) = n"
proof -
  have "n div 256 < 256" using assms by simp
  then show ?thesis
    by (simp add: byte_and_ff unat_of_nat drop_bit_eq_div)
qed

lemma packTextFrame_short:
  assumes "length payload < 126"
  shows "\<exists>hdr masked. packTextFrame msk payload = Inr (hdr @ msk @ masked)
           \<and> length hdr = 2 \<and> hdr ! 0 = 0x81 \<and> bit (hdr ! 1) 7
           \<and> unat (hdr ! 1 AND 0x7f) = length payload
           \<and> masked = mask_loop msk payload 0"
proof -
  let ?hdr = "[0x81, 0x80 OR of_nat (length payload)] :: byte list"
  have "packTextFrame msk payload = Inr (?hdr @ msk @ mask_loop msk payload 0)"
    using assms by (simp add: packTextFrame_def Let_def)
  moreover have "unat (?hdr ! 1 AND 0x7f) = length payload"
    using assms by (simp add: len7_field unat_of_nat)
  moreover have "bit (?hdr ! 1) 7"
    using mask_bit_set [of "of_nat (length payload)"] by simp
  ultimately show ?thesis by (intro exI [of _ ?hdr] exI [of _ "mask_loop msk payload 0"]) simp
qed

lemma packTextFrame_medium:
  assumes "126 \<le> length payload" and "length payload < 65536"
  shows "\<exists>hdr masked. packTextFrame msk payload = Inr (hdr @ msk @ masked)
           \<and> length hdr = 4 \<and> hdr ! 0 = 0x81 \<and> bit (hdr ! 1) 7
           \<and> hdr ! 1 AND 0x7f = 126
           \<and> 256 * unat (hdr ! 2) + unat (hdr ! 3) = length payload
           \<and> masked = mask_loop msk payload 0"
proof -
  let ?n = "length payload"
  let ?hdr = "[0x81, 0x80 OR 126, of_nat (drop_bit 8 ?n) AND 0xff, of_nat ?n AND 0xff] :: byte list"
  have "packTextFrame msk payload = Inr (?hdr @ msk @ mask_loop msk payload 0)"
    using assms by (simp add: packTextFrame_def Let_def)
  moreover have "256 * unat (?hdr ! 2) + unat (?hdr ! 3) = ?n"
    using len16_big_endian [OF assms(2)] by simp
  moreover have "bit (?hdr ! 1) 7" "?hdr ! 1 AND 0x7f = 126"
    by simp_all
  ultimately show ?thesis by (intro exI [of _ ?hdr] exI [of _ "mask_loop msk payload 0"]) simp
qed

text \<open>
  C9. For a payload shorter than 65536 bytes and a four-byte mask, the packed frame is
  header, mask, masked payload: the first header byte is 0x81, bit 7 (MASK) of the second
  is set, the length is in the low seven bits when it is below 126 and otherwise those
  bits are 126 and two further header bytes hold the length big-endian; every payload
  byte is the masked byte XOR \<open>mask[i mod 4]\<close>. A payload of 65536 bytes or more
  throws "Payload too large".
\<close>

theorem packTextFrame_frame_layout:
  assumes "length msk = 4"
  shows "(length payload < 65536 \<longrightarrow>
           (\<exists>hdr masked. packTextFrame msk payload = Inr (hdr @ msk @ masked)
              \<and> hdr ! 0 = 0x81 \<and> bit (hdr ! 1) 7
              \<and> (length payload < 126 \<longrightarrow>
                    length hdr = 2 \<and> unat (hdr ! 1 AND 0x7f) = length payload)
              \<and> (126 \<le> length payload \<longrightarrow>
                    length hdr = 4 \<and> hdr ! 1 AND 0x7f = 126
                    \<and> 256 * unat (hdr ! 2) + unat (hdr ! 3) = length payload)
              \<and> length masked = length payload
              \<and> (\<forall>i < length payload. payload ! i = (masked ! i) XOR (msk ! (i mod 4)))))
       \<and> (65536 \<le> length payload \<longrightarrow>
            packTextFrame msk payload = Inl (Error ''Payload too large''))"
proof (intro conjI impI)
  assume lt: "length payload < 65536"
  show "\<exists>hdr masked. packTextFrame msk payload = Inr (hdr @ msk @ masked)
              \<and> hdr ! 0 = 0x81 \<and> bit (hdr ! 1) 7
              \<and> (length payload < 126 \<longrightarrow>
                    length hdr = 2 \<and> unat (hdr ! 1 AND 0x7f) = length payload)
              \<and> (126 \<le> length payload \<longrightarrow>
                    length hdr = 4 \<and> hdr ! 1 AND 0x7f = 126
                    \<and> 256 * unat (hdr ! 2) + unat (hdr ! 3) = length payload)
              \<and> length masked = length payload
              \<and> (\<forall>i < length payload. payload ! i = (masked ! i) XOR (msk ! (i mod 4)))"
  proof (cases "length payload < 126")
    case True
    from packTextFrame_short [OF True, of msk] obtain hdr masked where
      h: "packTextFrame msk payload = Inr (hdr @ msk @ masked)" "length hdr = 2"
         "hdr ! 0 = 0x81" "bit (hdr ! 1) 7" "unat (hdr ! 1 AND 0x7f) = length payload"
         "masked = mask_loop msk payload 0"
      by blast
    have "\<forall>i < length payload. payload ! i = (masked ! i) XOR (msk ! (i mod 4))"
      using h(6) unmask_nth by blast
    with h True show ?thesis
      by (intro exI [of _ hdr] exI [of _ masked]) (simp add: mask_loop_length)
  next
    case False
    then have ge: "126 \<le> length payload" by simp
    from packTextFrame_medium [OF ge lt, of msk] obtain hdr masked where
      h: "packTextFrame msk payload = Inr (hdr @ msk @ masked)" "length hdr = 4"
         "hdr ! 0 = 0x81" "bit (hdr ! 1) 7" "hdr ! 1 AND 0x7f = 126"
         "256 * unat (hdr ! 2) + unat (hdr ! 3) = length payload"
         "masked = mask_loop msk payload 0"
      by blast
    have "\<forall>i < length payload. payload ! i = (masked ! i) XOR (msk ! (i mod 4))"
      using h(7) unmask_nth by blast
    with h False show ?thesis
      by (intro exI [of _ hdr] exI [of _ masked]) (simp add: mask_loop_length)
  qed
next
  assume "65536 \<le> length payload"
  then show "packTextFrame msk payload = Inl (Error ''Payload too large'')"
    by (simp add: packTextFrame_def)
qed

theorem packTextFrame_frame_layout_witness:
  "length [1, 2, 3, 4 :: byte] = 4
   \<and> packTextFrame [1, 2, 3, 4] [0x68, 0x69] = Inr ([0x81, 0x82] @ [1, 2, 3, 4] @ [0x69, 0x6b])
   \<and> packTextFrame [1, 2, 3, 4] (replicate 65536 0) = Inl (Error ''Payload too large'')"
  using packTextFrame_frame_layout [of "[1, 2, 3, 4]" "[0x68, 0x69]"]
    packTextFrame_frame_layout [of "[1, 2, 3, 4]" "replicate 65536 0"]
  by (simp add: packTextFrame_def)

section \<open>Properties of the destination URL\<close>

text \<open>
  C1. When the path has no non-empty segment, or its first non-empty segment is not the
  configured \<open>AUTH_TOKEN\<close>, \<open>parseDestinationUrl\<close> returns \<open>DEFAULT_DST_URL\<close>, whatever
  the other segments and the query string are.
\<close>

theorem parseDestinationUrl_token_gate:
  assumes "case path_parts (pathname (req_url req)) of
             [] \<Rightarrow> True
           | a # rest \<Rightarrow> a \<noteq> AUTH_TOKEN cfg"
  shows "parseDestinationUrl req cfg = DEFAULT_DST_URL cfg"
proof (cases "path_parts (pathname (req_url req))")
  case Nil
  then show ?thesis by (simp add: parseDestinationUrl_def)
next
  case (Cons a rest)
  with assms have "a \<noteq> AUTH_TOKEN cfg" by simp
  with Cons show ?thesis
    by (simp add: parseDestinationUrl_def Let_def split: list.splits option.splits)
qed

theorem parseDestinationUrl_token_gate_witness:
  "path_parts ''/nope/https/example.org/x'' = [''nope'', ''https'', ''example.org'', ''x'']
   \<and> ''nope'' \<noteq> AUTH_TOKEN sample_config
   \<and> parseDestinationUrl (sample_get ''/nope/https/example.org/x'' ''?q=1'') sample_config
       = ''https://httpbin.org/get''"
proof -
  have parts: "path_parts ''/nope/https/example.org/x'' = [''nope'', ''https'', ''example.org'', ''x'']"
    by code_simp
  show ?thesis
    using parseDestinationUrl_token_gate
      [where req = "sample_get ''/nope/https/example.org/x'' ''?q=1''" and cfg = sample_config]
    by (simp add: parts sample_get_def sample_config_def)
qed

section \<open>Properties of chunked decoding\<close>

lemma hex_digit_facts:
  assumes "is_hex_digit c"
  shows "\<not> is_space c" "c \<noteq> CHR ''-''" "c \<noteq> CHR ''+''" "c \<noteq> CHR ''x''" "c \<noteq> CHR ''X''"
    "c \<noteq> CR" "is_radix_digit 16 c" "digit_value c = Some (hex_digit_value c)"
  using assms
  by (auto simp: is_hex_digit_def is_space_def CR_def is_radix_digit_def digit_value_def
      hex_digit_value_def Let_def)

lemma digits_value_snoc:
  "digits_value r (ds @ [d]) = digits_value r ds * r + (case digit_value d of Some x \<Rightarrow> x | None \<Rightarrow> 0)"
  by (simp add: digits_value_def)

lemma digits_value_hex:
  "list_all is_hex_digit h \<Longrightarrow> digits_value 16 h = hex_value h"
proof (induction h rule: rev_induct)
  case Nil
  then show ?case by (simp add: digits_value_def hex_value_def)
next
  case (snoc d ds)
  then show ?case
    by (simp add: digits_value_snoc hex_value_def hex_digit_facts(8))
qed

lemma parseInt_size_line:
  assumes "size_line h n"
  shows "parseInt h 16 = Some (int n)"
proof -
  from assms obtain c cs where h: "h = c # cs" and all: "list_all is_hex_digit (c # cs)"
    and v: "hex_value h = n"
    by (cases h) (auto simp: size_line_def)
  from all have c: "is_hex_digit c" by simp
  have 1: "dropWhile is_space h = h" using h hex_digit_facts(1) [OF c] by simp
  have 2: "\<not> prefix ''-'' h" "\<not> prefix ''+'' h"
    using h hex_digit_facts(2,3) [OF c] by auto
  have 3: "\<not> prefix ''0x'' h" "\<not> prefix ''0X'' h"
  proof -
    show "\<not> prefix ''0x'' h"
    proof
      assume "prefix ''0x'' h"
      then obtain r where "h = ''0x'' @ r" by (auto simp: prefix_def)
      with h all have "is_hex_digit (CHR ''x'')" by (cases cs) auto
      then show False using hex_digit_facts(4) by blast
    qed
    show "\<not> prefix ''0X'' h"
    proof
      assume "prefix ''0X'' h"
      then obtain r where "h = ''0X'' @ r" by (auto simp: prefix_def)
      with h all have "is_hex_digit (CHR ''X'')" by (cases cs) auto
      then show False using hex_digit_facts(5) by blast
    qed
  qed
  have 4: "takeWhile (is_radix_digit 16) h = h"
    using all h by (auto simp: takeWhile_eq_all_conv list_all_iff hex_digit_facts(7))
  have ne: "h \<noteq> []" using h by simp
  have "parseInt h 16 = Some (int (digits_value 16 h))"
    apply (simp only: parseInt_def Let_def 1)
    apply (simp only: 2 3 4 simp_thms if_False)
    using ne apply simp
    done
  with all h v show ?thesis by (simp add: digits_value_hex)
qed

lemma find_crlf_append:
  "find_crlf xs = Some p \<Longrightarrow> find_crlf (xs @ ys) = Some p"
proof (induction xs arbitrary: p rule: find_crlf.induct)
  case (1 a b cs)
  then show ?case by (auto split: if_splits)
qed simp_all

lemma find_crlf_size_line:
  "CR \<notin> set h \<Longrightarrow> find_crlf (h @ CRLF @ rest) = Some (length h)"
proof (induction h)
  case Nil
  then show ?case by (simp add: CRLF_def)
next
  case (Cons c h)
  then show ?case by (cases "h @ CRLF @ rest") (auto simp: CRLF_def)
qed

lemma size_line_no_CR: "size_line h n \<Longrightarrow> CR \<notin> set h"
  using hex_digit_facts(6) by (auto simp: size_line_def list_all_iff)

lemma fill_chunk_enough:
  assumes "need \<le> int (length (buff @ concat reads))"
  shows "\<exists>buff' reads'. fill_chunk fin need buff reads = Inr (buff', reads')
           \<and> buff' @ concat reads' = buff @ concat reads \<and> need \<le> int (length buff')"
  using assms
proof (induction fin need buff reads rule: fill_chunk.induct)
  case (1 fin need buff)
  then show ?case by simp
next
  case (2 fin need buff v reads)
  then show ?case by (cases "int (length buff) < need") auto
qed


lemma await_size_line:
  assumes "CR \<notin> set h" and "buff @ concat reads = h @ CRLF @ R"
  shows "\<exists>buff2 reads2. readChunks fin reads buff = readChunks fin reads2 buff2
           \<and> buff2 @ concat reads2 = h @ CRLF @ R \<and> find_crlf buff2 = Some (length h)"
  using assms(2)
proof (induction reads arbitrary: buff)
  case Nil
  then have "find_crlf buff = Some (length h)"
    using find_crlf_size_line [OF assms(1)] by simp
  with Nil show ?case
    by (intro exI [of _ buff] exI [of _ "[]"]) simp
next
  case (Cons v reads)
  show ?case
  proof (cases "find_crlf buff")
    case None
    then have "readChunks fin (v # reads) buff = readChunks fin reads (buff @ v)"
      by (simp add: readChunks.simps [of fin "v # reads" buff])
    moreover from Cons.prems have "(buff @ v) @ concat reads = h @ CRLF @ R" by simp
    from Cons.IH [OF this] obtain buff2 reads2 where
      "readChunks fin reads (buff @ v) = readChunks fin reads2 buff2"
      "buff2 @ concat reads2 = h @ CRLF @ R" "find_crlf buff2 = Some (length h)"
      by blast
    ultimately show ?thesis by auto
  next
    case (Some pos)
    from find_crlf_append [OF Some, of "concat (v # reads)"] Cons.prems
    have "find_crlf (h @ CRLF @ R) = Some pos" by simp
    with find_crlf_size_line [OF assms(1), of R] have "pos = length h" by simp
    with Some Cons.prems show ?thesis
      by (intro exI [of _ buff] exI [of _ "v # reads"]) simp
  qed
qed

lemma take_size_line:
  assumes "find_crlf buff = Some (length h)" and "buff @ tl1 = h @ rest"
  shows "take (length h) buff = h" and "drop (length h + 2) buff @ tl1 = drop 2 rest"
proof -
  from find_crlf_bound [OF assms(1)] have len: "length h + 2 \<le> length buff" .
  then have "take (length h) buff = take (length h) (buff @ tl1)" by simp
  also have "\<dots> = h" using assms(2) by simp
  finally show "take (length h) buff = h" .
  have "drop (length h + 2) buff @ tl1 = drop (length h + 2) (buff @ tl1)"
    using len by simp
  also have "\<dots> = drop 2 rest" using assms(2) by (simp add: add.commute)
  finally show "drop (length h + 2) buff @ tl1 = drop 2 rest" .
qed

lemma readChunks_last:
  assumes "size_line z 0" and "find_crlf buff = Some (length z)"
    and "buff @ concat reads = z @ CRLF @ R"
  shows "readChunks fin reads buff = ([], None)"
proof -
  have "take (length z) buff = z" using take_size_line(1) [OF assms(2,3)] .
  with assms(2) parseInt_size_line [OF assms(1)] show ?thesis
    by (simp add: readChunks.simps [of fin reads buff])
qed

lemma js_slice_nonneg:
  "n \<le> length xs \<Longrightarrow> js_slice 0 (int n) xs = take n xs"
  "js_slice_from (int n + 2) xs = drop (n + 2) xs"
  by (auto simp: js_slice_def js_slice_from_def clamp_index_def min_def nat_add_distrib)

lemma readChunks_chunk:
  assumes "size_line h (length p)" and "p \<noteq> []" and "find_crlf buff = Some (length h)"
    and "buff @ concat reads = h @ CRLF @ p @ CRLF @ R"
  shows "\<exists>buff' reads'. readChunks fin reads buff
            = (p # fst (readChunks fin reads' buff'), snd (readChunks fin reads' buff'))
           \<and> buff' @ concat reads' = R"
proof -
  let ?n = "length p"
  have tk: "take (length h) buff = h" using take_size_line(1) [OF assms(3,4)] .
  have dr: "drop (length h + 2) buff @ concat reads = p @ CRLF @ R"
    using take_size_line(2) [OF assms(3,4)] by (simp add: CRLF_def)
  have "int ?n + 2 \<le> int (length (drop (length h + 2) buff @ concat reads))"
    unfolding dr by (simp add: CRLF_def)
  from fill_chunk_enough [OF this, of fin] obtain b rs where
    fill: "fill_chunk fin (int ?n + 2) (drop (length h + 2) buff) reads = Inr (b, rs)"
    and cat: "b @ concat rs = p @ CRLF @ R" and len: "int ?n + 2 \<le> int (length b)"
    using dr by auto
  from len have len': "?n + 2 \<le> length b" by simp
  have "take ?n b = take ?n (b @ concat rs)" using len' by simp
  then have p: "take ?n b = p" using cat by simp
  have "drop (?n + 2) b @ concat rs = drop (?n + 2) (b @ concat rs)" using len' by simp
  then have r: "drop (?n + 2) b @ concat rs = R" using cat by (simp add: CRLF_def)
  have nz: "int ?n \<noteq> 0" using assms(2) by simp
  have "readChunks fin reads buff
          = (p # fst (readChunks fin rs (drop (?n + 2) b)), snd (readChunks fin rs (drop (?n + 2) b)))"
    using assms(3) tk parseInt_size_line [OF assms(1)] fill nz p len'
    by (simp add: readChunks.simps [of fin reads buff] Let_def js_slice_nonneg)
  with r show ?thesis by blast
qed

lemma readChunks_well_formed:
  assumes "well_formed_chunks chunks z"
    and "buff @ concat reads = chunked_wire chunks z"
  shows "readChunks fin reads buff = (map snd chunks, None)"
  using assms
proof (induction chunks arbitrary: buff reads)
  case Nil
  then have z: "size_line z 0" and w: "buff @ concat reads = z @ CRLF @ CRLF"
    by (simp_all add: well_formed_chunks_def chunked_wire_def)
  from await_size_line [OF size_line_no_CR [OF z] w, of fin] obtain buff2 reads2 where
    "readChunks fin reads buff = readChunks fin reads2 buff2"
    "buff2 @ concat reads2 = z @ CRLF @ CRLF" "find_crlf buff2 = Some (length z)"
    by blast
  with readChunks_last [OF z, of buff2 reads2 CRLF fin] show ?case by simp
next
  case (Cons c chunks)
  obtain h p where c: "c = (h, p)" by (cases c)
  from Cons.prems c have h: "size_line h (length p)" and p: "p \<noteq> []"
    and rest: "well_formed_chunks chunks z"
    and w: "buff @ concat reads = h @ CRLF @ p @ CRLF @ chunked_wire chunks z"
    by (simp_all add: well_formed_chunks_def chunked_wire_def chunk_wire_def)
  from await_size_line [OF size_line_no_CR [OF h] w, of fin] obtain buff2 reads2 where
    eq: "readChunks fin reads buff = readChunks fin reads2 buff2"
    and w2: "buff2 @ concat reads2 = h @ CRLF @ p @ CRLF @ chunked_wire chunks z"
    and pos: "find_crlf buff2 = Some (length h)"
    by blast
  from readChunks_chunk [OF h p pos w2, of fin] obtain buff' reads' where
    step: "readChunks fin reads2 buff2
            = (p # fst (readChunks fin reads' buff'), snd (readChunks fin reads' buff'))"
    and w': "buff' @ concat reads' = chunked_wire chunks z"
    by blast
  from Cons.IH [OF rest w'] have "readChunks fin reads' buff' = (map snd chunks, None)" .
  with eq step c show ?case by simp
qed

text \<open>
  C8. For a well-formed chunked body, however its bytes are split between the buffer
  left over from the header block and the later reads of the socket, \<open>readChunks\<close>
  yields the payloads of the chunks, one per chunk and in order, and returns without
  an error: the concatenation of what it yields is the concatenation of the payloads,
  and no CR LF of the framing is part of it.
\<close>

theorem readChunks_chunked_round_trip:
  assumes "well_formed_chunks chunks z"
    and "buff @ concat reads = chunked_wire chunks z"
  shows "fst (readChunks fin reads buff) = map snd chunks
         \<and> concat (fst (readChunks fin reads buff)) = concat (map snd chunks)
         \<and> snd (readChunks fin reads buff) = None"
  using readChunks_well_formed [OF assms, of fin] by simp

theorem readChunks_chunked_round_trip_witness:
  "well_formed_chunks [(''5'', ''hello''), (''6'', '' world'')] ''0''
   \<and> (''5'' @ [CR]) @ concat [[LF] @ ''hello'' @ CRLF @ ''6'' @ CRLF @ '' wor'', ''ld'' @ CRLF @ ''0'' @ CRLF @ CRLF]
       = chunked_wire [(''5'', ''hello''), (''6'', '' world'')] ''0''
   \<and> concat (fst (readChunks None
         [[LF] @ ''hello'' @ CRLF @ ''6'' @ CRLF @ '' wor'', ''ld'' @ CRLF @ ''0'' @ CRLF @ CRLF]
         (''5'' @ [CR]))) = ''hello world''
   \<and> snd (readChunks None
         [[LF] @ ''hello'' @ CRLF @ ''6'' @ CRLF @ '' wor'', ''ld'' @ CRLF @ ''0'' @ CRLF @ CRLF]
         (''5'' @ [CR])) = None"
proof -
  have wf: "well_formed_chunks [(''5'', ''hello''), (''6'', '' world'')] ''0''"
    by code_simp
  have wire: "(''5'' @ [CR]) @ concat [[LF] @ ''hello'' @ CRLF @ ''6'' @ CRLF @ '' wor'', ''ld'' @ CRLF @ ''0'' @ CRLF @ CRLF]
       = chunked_wire [(''5'', ''hello''), (''6'', '' world'')] ''0''"
    by (simp add: chunked_wire_def chunk_wire_def CRLF_def)
  show ?thesis
    using readChunks_chunked_round_trip [OF wf wire, of None] wf wire by simp
qed

section \<open>Properties of the DNS paths\<close>

lemma DoT_both_fail_status:
  assumes "req_method req = ''POST''"
    and "headers_get (req_headers req) ''content-type'' = Some ''application/dns-message''"
    and "dot_exchange e cfg (case body_bytes st req of None \<Rightarrow> [] | Some b \<Rightarrow> b) = Inl socketError"
    and "env_fetch e (dot_fallback_request cfg (case body_bytes st req of None \<Rightarrow> [] | Some b \<Rightarrow> b))
           = Inl fallbackError"
  shows "resp_status (DoTProxy_handleDnsQuery e cfg st req) = 500"
  using assms by (simp add: DoTProxy_handleDnsQuery_def handleError_def text_response_def)

text \<open>
  C7. A DNS POST whose DoT socket fails at the first write and whose DoH \<open>fetch\<close> then
  throws: \<open>DoTProxy.handleDnsQuery\<close> answers with status 500, where the \<open>fetch\<close> DNS
  path of \<open>FetchProxy\<close> answers the same failure with 502.
\<close>

theorem DoTProxy_double_failure_returns_500:
  "resp_status
     (DoTProxy_handleDnsQuery (dead_env ''connection failed'' ''fetch failed'') sample_config
        (sample_store [''ab'', ''cd''])
        (sample_post [(''content-type'', ''application/dns-message'')])) = 500
   \<and> resp_status
     (FetchProxy_handleDnsQuery (dead_env ''connection failed'' ''fetch failed'') sample_config
        (sample_store [''ab'', ''cd''])
        (sample_post [(''content-type'', ''application/dns-message'')])) = 502"
  by code_simp

theorem DoTProxy_double_failure_returns_500_witness:
  "resp_status
     (DoTProxy_handleDnsQuery (dead_env ''connection failed'' ''fetch failed'') sample_config
        (sample_store [''ab'', ''cd''])
        (sample_post [(''content-type'', ''application/dns-message'')])) \<noteq> 502"
  using DoTProxy_double_failure_returns_500 by simp

section \<open>Properties of the socket address\<close>

lemma socket_http_target_port:
  "fst (snd (socket_http_target u)) = (if protocol u = ''https:'' then 443 else 80)"
  "snd (snd (socket_http_target u)) = (protocol u = ''https:'')"
  "fst (socket_http_target u) = hostname u"
  by (simp_all add: socket_http_target_def)

text \<open>
  C6. For the destination \<open>http://example.com:8080/post\<close> the HTTP path of the Socket
  transport opens its socket to port 80, not 8080: \<open>connect\<close> is called with
  \<open>example.com:80\<close>, as the error of an environment that reports the address shows.
  The SOCKS5 transport's HTTP path computes 8080 for the same URL.
\<close>

theorem socket_http_target_drops_explicit_port:
  "socket_http_target
      \<lparr>protocol = ''http:'', hostname = ''example.com'', port = ''8080'',
       pathname = ''/post'', search = []\<rparr> = (''example.com'', 80, False)
   \<and> SocketProxy_connectHttp reporting_env sample_config (sample_store [''ab'']) (sample_post [])
        ''http://example.com:8080/post''
       = Inr (text_response ''Error socket connection: example.com:80'' 500)
   \<and> port_or_default
      \<lparr>protocol = ''http:'', hostname = ''example.com'', port = ''8080'',
       pathname = ''/post'', search = []\<rparr> = 8080"
  by code_simp

theorem socket_http_target_drops_explicit_port_witness:
  "fst (snd (socket_http_target
      \<lparr>protocol = ''http:'', hostname = ''example.com'', port = ''8080'',
       pathname = ''/post'', search = []\<rparr>)) \<noteq> 8080"
  using socket_http_target_drops_explicit_port by simp

section \<open>Properties of the SOCKS5 negotiation\<close>

text \<open>
  C10. When the SOCKS5 server answers the greeting with version 5 and method 2 and the
  configured address has no username or no password (undefined or empty),
  \<open>socks5Connect\<close> throws "please provide username/password", and the greeting is all
  that was written to the socket: no CONNECT request.
\<close>

theorem socks5Connect_auth_without_credentials:
  assumes "env_connect e (socks_hostname addr) (socks_port addr) False = Inr s0"
    and "sock_written s0 = []"
    and "sock_write_error s0 0 = None"
    and "sock_incoming s0 = res # rest"
    and "byte_at res 0 = Some 5" and "byte_at res 1 = Some 2"
    and "falsy (socks_username addr) \<or> falsy (socks_password addr)"
  shows "socks5Connect e addr addressType addressRemote portRemote
         = Inl (Error ''please provide username/password'', [socks_greeting])"
  using assms
  by (simp add: socks5Connect_def sock_write_def sock_read_def socks_auth_def)

theorem socks5Connect_auth_without_credentials_witness:
  "parseSocks5Address ''proxy.example:1080''
     = Inr \<lparr>socks_username = None, socks_password = None,
            socks_hostname = ''proxy.example'', socks_port = 1080\<rparr>
   \<and> byte_at [char_of (5 :: nat), char_of (2 :: nat)] 0 = Some 5
   \<and> byte_at [char_of (5 :: nat), char_of (2 :: nat)] 1 = Some 2
   \<and> falsy None
   \<and> socks5Connect (socks_env [char_of (5 :: nat), char_of (2 :: nat)])
        \<lparr>socks_username = None, socks_password = None,
         socks_hostname = ''proxy.example'', socks_port = 1080\<rparr>
        2 ''example.com'' 443
       = Inl (Error ''please provide username/password'', [socks_greeting])
   \<and> (case socks5Connect (socks_env [char_of (5 :: nat), char_of (0 :: nat)])
        \<lparr>socks_username = None, socks_password = None,
         socks_hostname = ''proxy.example'', socks_port = 1080\<rparr>
        2 ''example.com'' 443 of Inl (err, written) \<Rightarrow> written | Inr s \<Rightarrow> sock_written s)
       = [socks_greeting,
          [char_of (5 :: nat), char_of (1 :: nat), char_of (0 :: nat), char_of (3 :: nat),
           char_of (11 :: nat)] @ ''example.com'' @ [char_of (1 :: nat), char_of (187 :: nat)]]"
proof -
  let ?addr = "\<lparr>socks_username = None, socks_password = None,
         socks_hostname = ''proxy.example'', socks_port = 1080\<rparr>"
  let ?res = "[char_of (5 :: nat), char_of (2 :: nat)]"
  let ?s0 = "\<lparr>sock_incoming = [?res], sock_read_end = None,
              sock_write_error = (\<lambda>i. None), sock_written = []\<rparr>"
  have p: "parseSocks5Address ''proxy.example:1080'' = Inr ?addr" by code_simp
  have c: "env_connect (socks_env ?res) (socks_hostname ?addr) (socks_port ?addr) False = Inr ?s0"
    by (simp add: socks_env_def)
  have b0: "byte_at ?res 0 = Some 5" and b1: "byte_at ?res 1 = Some 2"
    by (simp_all add: byte_at_def)
  have f: "falsy (socks_username ?addr) \<or> falsy (socks_password ?addr)"
    by (simp add: falsy_def)
  have other: "(case socks5Connect (socks_env [char_of (5 :: nat), char_of (0 :: nat)]) ?addr
        2 ''example.com'' 443 of Inl (err, written) \<Rightarrow> written | Inr s \<Rightarrow> sock_written s)
       = [socks_greeting,
          [char_of (5 :: nat), char_of (1 :: nat), char_of (0 :: nat), char_of (3 :: nat),
           char_of (11 :: nat)] @ ''example.com'' @ [char_of (1 :: nat), char_of (187 :: nat)]]"
    by code_simp
  have "socks5Connect (socks_env ?res) ?addr 2 ''example.com'' 443
       = Inl (Error ''please provide username/password'', [socks_greeting])"
    by (rule socks5Connect_auth_without_credentials [OF c _ _ _ b0 b1 f]) simp_all
  with p b0 b1 other show ?thesis by (simp add: falsy_def)
qed

section \<open>Properties of the Socket transport's fallback\<close>

lemma isCloudflareNetworkError_iff:
  "isCloudflareNetworkError error
     \<longleftrightarrow> (\<exists>s \<in> set NETWORK_ERROR_MESSAGES. sublist s (message error))"
proof (cases "message error = []")
  case True
  then show ?thesis
    by (simp add: isCloudflareNetworkError_def NETWORK_ERROR_MESSAGES_def)
next
  case False
  then show ?thesis
    by (simp add: isCloudflareNetworkError_def NETWORK_ERROR_MESSAGES_def)
qed

lemma handleError_response:
  "resp_status (handleError error context status) = status"
  "resp_body (handleError error context status)
     = ([''Error '' @ toLowerCase context @ '': '' @ message error], None)"
  by (simp_all add: handleError_def text_response_def)

lemma sublist_message:
  "sublist (message error) (''Error '' @ toLowerCase context @ '': '' @ message error)"
proof -
  have "''Error '' @ toLowerCase context @ '': '' @ message error
          = (''Error '' @ toLowerCase context @ '': '') @ message error @ []"
    by simp
  then show ?thesis unfolding sublist_def by blast
qed




lemma SocketProxy_connectHttp_caught:
  assumes "env_URL e dstUrl = Inr targetUrl"
    and "snd (socket_attempt e (fst (clone_request st req)) req targetUrl) = Inl error"
  shows "SocketProxy_connectHttp e cfg st req dstUrl
         = (if isCloudflareNetworkError error
            then fallback_connectHttp e cfg
                   (fst (socket_attempt e (fst (clone_request st req)) req targetUrl))
                   (snd (clone_request st req)) dstUrl
            else Inr (handleError error ''Socket connection'' 500))"
proof -
  obtain st1 clone where c: "clone_request st req = (st1, clone)"
    by (cases "clone_request st req")
  obtain st2 r where a: "socket_attempt e st1 req targetUrl = (st2, r)"
    by (cases "socket_attempt e st1 req targetUrl")
  with assms c show ?thesis
    by (simp add: SocketProxy_connectHttp_def)
qed



text \<open>
  C4. An error caught by the \<open>catch\<close> block of the Socket transport's HTTP path is
  classified as network-restricted exactly when its message contains one of the nine
  substrings. A classified error makes the method return what the fallback's
  \<open>connectHttp\<close> returns for the clone; any other error makes it return a response with
  status 500 whose body contains the error's message.
\<close>

theorem SocketProxy_error_classification:
  assumes "env_URL e dstUrl = Inr targetUrl"
    and "snd (socket_attempt e (fst (clone_request st req)) req targetUrl) = Inl error"
  shows "(isCloudflareNetworkError error
            \<longleftrightarrow> (\<exists>s \<in> set NETWORK_ERROR_MESSAGES. sublist s (message error)))
       \<and> ((\<exists>s \<in> set NETWORK_ERROR_MESSAGES. sublist s (message error)) \<longrightarrow>
            SocketProxy_connectHttp e cfg st req dstUrl
              = fallback_connectHttp e cfg
                  (fst (socket_attempt e (fst (clone_request st req)) req targetUrl))
                  (snd (clone_request st req)) dstUrl)
       \<and> (\<not> (\<exists>s \<in> set NETWORK_ERROR_MESSAGES. sublist s (message error)) \<longrightarrow>
            (\<exists>text. SocketProxy_connectHttp e cfg st req dstUrl = Inr (text_response text 500)
               \<and> sublist (message error) text))"
proof (intro conjI impI)
  show "isCloudflareNetworkError error
          \<longleftrightarrow> (\<exists>s \<in> set NETWORK_ERROR_MESSAGES. sublist s (message error))"
    by (rule isCloudflareNetworkError_iff)
next
  assume "\<exists>s \<in> set NETWORK_ERROR_MESSAGES. sublist s (message error)"
  then have "isCloudflareNetworkError error" using isCloudflareNetworkError_iff by blast
  with SocketProxy_connectHttp_caught [OF assms, of cfg]
  show "SocketProxy_connectHttp e cfg st req dstUrl
          = fallback_connectHttp e cfg
              (fst (socket_attempt e (fst (clone_request st req)) req targetUrl))
              (snd (clone_request st req)) dstUrl"
    by simp
next
  assume "\<not> (\<exists>s \<in> set NETWORK_ERROR_MESSAGES. sublist s (message error))"
  then have "\<not> isCloudflareNetworkError error" using isCloudflareNetworkError_iff by blast
  with SocketProxy_connectHttp_caught [OF assms, of cfg]
  have "SocketProxy_connectHttp e cfg st req dstUrl
          = Inr (text_response (''Error '' @ toLowerCase ''Socket connection'' @ '': '' @ message error) 500)"
    by (simp add: handleError_def)
  with sublist_message [of error "''Socket connection''"]
  show "\<exists>text. SocketProxy_connectHttp e cfg st req dstUrl = Inr (text_response text 500)
               \<and> sublist (message error) text"
    by blast
qed

theorem SocketProxy_error_classification_witness:
  "env_URL (fallback_env 2 ''TCP Loop detected'') ''http://example.com:8080/post''
     = Inr \<lparr>protocol = ''http:'', hostname = ''example.com'', port = ''8080'',
            pathname = ''/post'', search = []\<rparr>
   \<and> snd (socket_attempt (fallback_env 2 ''TCP Loop detected'')
            (fst (clone_request (sample_store [''ab'', ''cd'']) (sample_post [])))
            (sample_post [])
            \<lparr>protocol = ''http:'', hostname = ''example.com'', port = ''8080'',
             pathname = ''/post'', search = []\<rparr>) = Inl (Error ''TCP Loop detected'')
   \<and> isCloudflareNetworkError (Error ''TCP Loop detected'')
   \<and> SocketProxy_connectHttp (fallback_env 2 ''TCP Loop detected'') sample_config
        (sample_store [''ab'', ''cd'']) (sample_post []) ''http://example.com:8080/post''
       = Inr \<lparr>resp_status = 200, resp_statusText = ''OK'', resp_headers = [],
              resp_body = ([''abcd''], None)\<rparr>
   \<and> snd (socket_attempt (fallback_env 2 ''disk full'')
            (fst (clone_request (sample_store [''ab'', ''cd'']) (sample_post [])))
            (sample_post [])
            \<lparr>protocol = ''http:'', hostname = ''example.com'', port = ''8080'',
             pathname = ''/post'', search = []\<rparr>) = Inl (Error ''disk full'')
   \<and> SocketProxy_connectHttp (fallback_env 2 ''disk full'') sample_config
        (sample_store [''ab'', ''cd'']) (sample_post []) ''http://example.com:8080/post''
       = Inr (text_response ''Error socket connection: disk full'' 500)"
proof -
  let ?u = "\<lparr>protocol = ''http:'', hostname = ''example.com'', port = ''8080'',
             pathname = ''/post'', search = []\<rparr>"
  have u1: "env_URL (fallback_env 2 ''TCP Loop detected'') ''http://example.com:8080/post'' = Inr ?u"
    by code_simp
  have a1: "snd (socket_attempt (fallback_env 2 ''TCP Loop detected'')
            (fst (clone_request (sample_store [''ab'', ''cd'']) (sample_post [])))
            (sample_post []) ?u) = Inl (Error ''TCP Loop detected'')"
    by code_simp
  have r1: "SocketProxy_connectHttp (fallback_env 2 ''TCP Loop detected'') sample_config
        (sample_store [''ab'', ''cd'']) (sample_post []) ''http://example.com:8080/post''
       = Inr \<lparr>resp_status = 200, resp_statusText = ''OK'', resp_headers = [],
              resp_body = ([''abcd''], None)\<rparr>"
    by code_simp
  have u2: "env_URL (fallback_env 2 ''disk full'') ''http://example.com:8080/post'' = Inr ?u"
    by code_simp
  have a2: "snd (socket_attempt (fallback_env 2 ''disk full'')
            (fst (clone_request (sample_store [''ab'', ''cd'']) (sample_post [])))
            (sample_post []) ?u) = Inl (Error ''disk full'')"
    by code_simp
  have r2: "SocketProxy_connectHttp (fallback_env 2 ''disk full'') sample_config
        (sample_store [''ab'', ''cd'']) (sample_post []) ''http://example.com:8080/post''
       = Inr (text_response ''Error socket connection: disk full'' 500)"
    by code_simp
  have c1: "isCloudflareNetworkError (Error ''TCP Loop detected'')"
    using SocketProxy_error_classification [OF u1 a1, of sample_config]
    by (simp add: NETWORK_ERROR_MESSAGES_def)
  from u1 a1 c1 r1 a2 r2 SocketProxy_error_classification [OF u2 a2, of sample_config]
  show ?thesis by simp
qed



section \<open>Properties of the header sanitizer\<close>

lemma to_lower_char_idem: "to_lower_char (to_lower_char c) = to_lower_char c"
  by (simp add: to_lower_char_def Let_def)

lemma toLowerCase_idem: "toLowerCase (toLowerCase s) = toLowerCase s"
  by (simp add: toLowerCase_def to_lower_char_idem)


lemma header_values_lower: "header_values hs (toLowerCase n) = header_values hs n"
  by (simp add: header_values_def toLowerCase_idem)


lemma headers_set_fresh:
  "\<not> headers_has hs k \<Longrightarrow> toLowerCase k = k \<Longrightarrow> headers_set hs k v = hs @ [(k, v)]"
  by (simp add: headers_set_def headers_has_def header_values_lower)


















section \<open>Properties of response parsing\<close>











end
